theory Spec2Isabelle
  imports Main
begin

section \<open>File-based checkpoints (notebook/services/contents/filecheckpoints.py)\<close>

text \<open>
  A shallow embedding of the classes \<open>FileCheckpoints\<close> and \<open>GenericFileCheckpoints\<close>.
  Paths are POSIX paths (\<open>os.path\<close> is \<open>posixpath\<close>), strings are character lists, Python
  integers are \<open>int\<close>. The file system is an explicit state that every operation takes and
  returns; an exception is the value \<open>Inl e\<close>, returned with the state reached when it was
  raised.
\<close>

subsection \<open>Python strings and POSIX paths\<close>

text \<open>\<open>s.strip(c)\<close> for a one-character argument: drop the leading and trailing \<open>c\<close>.\<close>

definition strip :: "char \<Rightarrow> string \<Rightarrow> string" where
  "strip c s = rev (dropWhile (\<lambda>x. x = c) (rev (dropWhile (\<lambda>x. x = c) s)))"

text \<open>\<open>s.rfind(c)\<close>: the highest index of \<open>c\<close> in \<open>s\<close>, or \<open>-1\<close>.\<close>

fun rfind :: "char \<Rightarrow> string \<Rightarrow> int" where
  "rfind c [] = -1"
| "rfind c (x # xs) =
     (let r = rfind c xs in if r \<noteq> -1 then r + 1 else if x = c then 0 else -1)"

text \<open>
  \<open>s.rsplit(c, 1)\<close> unpacked into two names. The source applies it to \<open>'/' + path\<close>, which
  always contains the separator, so the list has exactly two elements; for a string
  without the separator (where Python's unpacking would raise) the model returns the
  string as the second component.
\<close>

definition rsplit1 :: "char \<Rightarrow> string \<Rightarrow> string \<times> string" where
  "rsplit1 c s =
     (let i = rfind c s in
      if i = -1 then ([], s) else (take (nat i) s, drop (nat i + 1) s))"

text \<open>
  \<open>os.path.splitext\<close> (\<open>genericpath._splitext(p, '/', None, '.')\<close>): the extension starts at
  the last dot of the last path component, unless only dots precede it there. The while
  loop that skips the leading dots is \<open>splitext_loop\<close>.
\<close>

function splitext_loop :: "string \<Rightarrow> int \<Rightarrow> int \<Rightarrow> bool" where
  "splitext_loop p filenameIndex dotIndex =
     (if filenameIndex < dotIndex then
        (if p ! nat filenameIndex \<noteq> CHR ''.'' then True
         else splitext_loop p (filenameIndex + 1) dotIndex)
      else False)"
  by pat_completeness auto
termination
  by (relation "measure (\<lambda>(p, filenameIndex, dotIndex). nat (dotIndex - filenameIndex))") auto

definition splitext :: "string \<Rightarrow> string \<times> string" where
  "splitext p =
     (let sepIndex = rfind CHR ''/'' p;
          dotIndex = rfind CHR ''.'' p
      in if dotIndex > sepIndex \<and> splitext_loop p (sepIndex + 1) dotIndex
         then (take (nat dotIndex) p, drop (nat dotIndex) p)
         else (p, []))"

text \<open>\<open>os.path.join(a, b)\<close> of \<open>posixpath\<close>, for two arguments.\<close>

definition os_path_join :: "string \<Rightarrow> string \<Rightarrow> string" where
  "os_path_join a b =
     (if take 1 b = ''/'' then b
      else if a = [] \<or> last a = CHR ''/'' then a @ b
      else a @ ''/'' @ b)"

text \<open>\<open>'{}'.format(i)\<close> for a non-negative integer: its decimal digits.\<close>

definition digit_char :: "nat \<Rightarrow> char" where
  "digit_char d = ''0123456789'' ! d"

function format_nat :: "nat \<Rightarrow> string" where
  "format_nat n = (if n < 10 then [digit_char n] else format_nat (n div 10) @ [digit_char (n mod 10)])"
  by pat_completeness auto
termination
  by (relation "measure id") auto

subsection \<open>Timestamps\<close>

text \<open>
  A \<open>datetime\<close> has microsecond resolution: it is modelled by the number of microseconds
  since the epoch. The difference of two datetimes is a normalised \<open>timedelta\<close> object with
  \<open>0 \<le> seconds < 86400\<close> and \<open>0 \<le> microseconds < 1000000\<close>.
\<close>

type_synonym datetime = int

record timedelta_obj =
  days :: int
  seconds :: int
  microseconds :: int

definition datetime_sub :: "datetime \<Rightarrow> datetime \<Rightarrow> timedelta_obj" where
  "datetime_sub a b =
     \<lparr>days = (a - b) div 86400000000,
      seconds = ((a - b) mod 86400000000) div 1000000,
      microseconds = (a - b) mod 1000000\<rparr>"

text \<open>\<open>FileCheckpoints.timedelta\<close> (lines 80-85).\<close>

definition timedelta :: "datetime \<Rightarrow> datetime \<Rightarrow> int" where
  "timedelta timestamp1 timestamp2 =
     (let delta = (if timestamp1 > timestamp2 then datetime_sub timestamp1 timestamp2
                   else datetime_sub timestamp2 timestamp1)
      in days delta * 24 * 60 * 60 + seconds delta)"

subsection \<open>The file system, errors and the configurable object\<close>

record regular_file =
  st_mtime :: datetime
  content :: string

record filesystem =
  files :: "string \<rightharpoonup> regular_file"
  dirs :: "string set"

definition isfile :: "filesystem \<Rightarrow> string \<Rightarrow> bool" where
  "isfile fs os_path = (files fs os_path \<noteq> None)"

datatype error =
    HTTPError int string
  | IndexError
  | FileNotFoundError string

text \<open>
  The traits of \<open>FileCheckpoints\<close> (lines 32-55). \<open>_get_os_path\<close> belongs to
  \<open>FileManagerMixin\<close> (fileio.py); it is a parameter of the object here, as it is of the
  contents manager.
\<close>

record checkpoints =
  checkpoint_dir :: string
  max_checkpoints :: int
  min_seconds_between_checkpoints :: int
  get_os_path :: "string \<Rightarrow> string"

record contents_manager =
  cm_get_os_path :: "string \<Rightarrow> string"

text \<open>The trait defaults of lines 32-53, for a given path resolution.\<close>

definition default_checkpoints :: "(string \<Rightarrow> string) \<Rightarrow> checkpoints" where
  "default_checkpoints resolve =
     \<lparr>checkpoint_dir = ''.ipynb_checkpoints'',
      max_checkpoints = 5,
      min_seconds_between_checkpoints = 60,
      get_os_path = resolve\<rparr>"

subsection \<open>External collaborators\<close>

text \<open>
  \<open>ensure_dir_exists\<close> (jupyter_core) creates the directory when it is absent. The source
  calls it inside \<open>perm_to_403\<close>, which only translates a permission fault; the model has no
  permission faults and keeps directories apart from regular files, so the call always
  succeeds and records the directory.
\<close>

definition ensure_dir_exists :: "string \<Rightarrow> filesystem \<Rightarrow> filesystem" where
  "ensure_dir_exists path fs = fs\<lparr>dirs := insert path (dirs fs)\<rparr>"

text \<open>
  Modelled from the spec: \<open>tz.utcfromtimestamp\<close> (notebook/_tz.py) is missing; the timestamp
  utility converts a raw modification-time value into a timezone-aware UTC timestamp. A
  file's \<open>st_mtime\<close> is kept in microseconds here, so the conversion keeps the number.
\<close>

definition utcfromtimestamp :: "int \<Rightarrow> datetime" where
  "utcfromtimestamp t = t"

text \<open>
  Modelled from the spec: \<open>FileManagerMixin._copy\<close> (fileio.py) is missing; the copy-based
  transfer duplicates the raw bytes of the source file, and a missing source surfaces as
  the underlying copy failure. \<open>mtime\<close> is the modification time the destination has
  afterwards, whatever the copy makes it.
\<close>

definition copy :: "string \<Rightarrow> string \<Rightarrow> datetime \<Rightarrow> filesystem \<Rightarrow> (error + unit) \<times> filesystem" where
  "copy src dest mtime fs =
     (case files fs src of
        None \<Rightarrow> (Inl (FileNotFoundError src), fs)
      | Some f \<Rightarrow> (Inr (), fs\<lparr>files := (files fs)(dest \<mapsto> \<lparr>st_mtime = mtime, content = content f\<rparr>)\<rparr>))"

text \<open>
  Modelled from the spec: \<open>FileManagerMixin._save_file\<close> and \<open>_save_notebook\<close> (fileio.py) are
  missing; the content-based transfer serialises the caller-supplied content into the
  file. The bytes written are represented by the content itself.
\<close>

definition save_file :: "string \<Rightarrow> string \<Rightarrow> string \<Rightarrow> datetime \<Rightarrow> filesystem \<Rightarrow> filesystem" where
  "save_file os_path content' format mtime fs =
     fs\<lparr>files := (files fs)(os_path \<mapsto> \<lparr>st_mtime = mtime, content = content'\<rparr>)\<rparr>"

definition save_notebook :: "string \<Rightarrow> string \<Rightarrow> datetime \<Rightarrow> filesystem \<Rightarrow> filesystem" where
  "save_notebook os_path nb mtime fs =
     fs\<lparr>files := (files fs)(os_path \<mapsto> \<lparr>st_mtime = mtime, content = nb\<rparr>)\<rparr>"

text \<open>\<open>shutil.move\<close> and \<open>os.unlink\<close> on regular files (\<open>os.rename\<close> replaces the destination).\<close>

definition shutil_move :: "string \<Rightarrow> string \<Rightarrow> filesystem \<Rightarrow> (error + unit) \<times> filesystem" where
  "shutil_move src dst fs =
     (case files fs src of
        None \<Rightarrow> (Inl (FileNotFoundError src), fs)
      | Some f \<Rightarrow> (Inr (), fs\<lparr>files := ((files fs)(src := None))(dst \<mapsto> f)\<rparr>))"

definition os_unlink :: "string \<Rightarrow> filesystem \<Rightarrow> (error + unit) \<times> filesystem" where
  "os_unlink path fs =
     (case files fs path of
        None \<Rightarrow> (Inl (FileNotFoundError path), fs)
      | Some f \<Rightarrow> (Inr (), fs\<lparr>files := (files fs)(path := None)\<rparr>))"

text \<open>
  Python's \<open>sorted(xs, key=k, reverse=True)\<close>: descending by key, and stable, so elements
  with equal keys keep their order in \<open>xs\<close>. This is the stable ascending sort by the
  negated key.
\<close>

definition sorted_reverse :: "('a \<Rightarrow> int) \<Rightarrow> 'a list \<Rightarrow> 'a list" where
  "sorted_reverse k xs = sort_key (\<lambda>x. - k x) xs"

subsection \<open>FileCheckpoints\<close>

text \<open>The info dict of a checkpoint: \<open>dict(id=..., last_modified=...)\<close>.\<close>

record checkpoint_info =
  info_id :: string
  last_modified :: datetime

text \<open>\<open>get_checkpoint_ids\<close> (lines 63-68).\<close>

definition get_checkpoint_ids :: "checkpoints \<Rightarrow> string list" where
  "get_checkpoint_ids self =
     map (\<lambda>i. ''checkpoint'' @ format_nat i) [0..<nat (max_checkpoints self)]"

text \<open>\<open>checkpoint_path\<close> (lines 154-170).\<close>

definition checkpoint_path :: "checkpoints \<Rightarrow> string \<Rightarrow> string \<Rightarrow> filesystem \<Rightarrow> string \<times> filesystem" where
  "checkpoint_path self checkpoint_id path fs =
     (let path = strip CHR ''/'' path;
          (parent, name) = rsplit1 CHR ''/'' (''/'' @ path);
          parent = strip CHR ''/'' parent;
          (basename, ext) = splitext name;
          filename = basename @ ''-'' @ checkpoint_id @ ext;
          os_path = get_os_path self parent;
          cp_dir = os_path_join os_path (checkpoint_dir self);
          fs = ensure_dir_exists cp_dir fs;
          cp_path = os_path_join cp_dir filename
      in (cp_path, fs))"

text \<open>\<open>checkpoint_model\<close> (lines 172-180); \<open>os.stat\<close> raises when the file is missing.\<close>

definition checkpoint_model :: "string \<Rightarrow> string \<Rightarrow> filesystem \<Rightarrow> error + checkpoint_info" where
  "checkpoint_model checkpoint_id os_path fs =
     (case files fs os_path of
        None \<Rightarrow> Inl (FileNotFoundError os_path)
      | Some stats \<Rightarrow>
          Inr \<lparr>info_id = checkpoint_id, last_modified = utcfromtimestamp (st_mtime stats)\<rparr>)"

text \<open>\<open>no_such_checkpoint\<close> (lines 183-187): the error it raises.\<close>

definition no_such_checkpoint :: "string \<Rightarrow> string \<Rightarrow> error" where
  "no_such_checkpoint path checkpoint_id =
     HTTPError 404 (''Checkpoint does not exist: '' @ path @ ''@'' @ checkpoint_id)"

text \<open>\<open>get_free_checkpoint_ids\<close> (lines 70-78); the loop over the pool threads the state.\<close>

fun free_ids_loop ::
  "checkpoints \<Rightarrow> string \<Rightarrow> string list \<Rightarrow> string list \<Rightarrow> filesystem \<Rightarrow> string list \<times> filesystem" where
  "free_ids_loop self path [] free_ids fs = (free_ids, fs)"
| "free_ids_loop self path (checkpoint_id # rest) free_ids fs =
     (case checkpoint_path self checkpoint_id path fs of
        (os_path, fs) \<Rightarrow>
          if \<not> isfile fs os_path
          then free_ids_loop self path rest (free_ids @ [checkpoint_id]) fs
          else free_ids_loop self path rest free_ids fs)"

definition get_free_checkpoint_ids :: "checkpoints \<Rightarrow> string \<Rightarrow> filesystem \<Rightarrow> string list \<times> filesystem" where
  "get_free_checkpoint_ids self path fs =
     (let path = strip CHR ''/'' path;
          checkpoint_ids = get_checkpoint_ids self
      in free_ids_loop self path checkpoint_ids [] fs)"

text \<open>\<open>list_checkpoints\<close> (lines 142-151).\<close>

fun list_loop ::
  "checkpoints \<Rightarrow> string \<Rightarrow> string list \<Rightarrow> checkpoint_info list \<Rightarrow> filesystem
     \<Rightarrow> (error + checkpoint_info list) \<times> filesystem" where
  "list_loop self path [] checkpoints fs = (Inr checkpoints, fs)"
| "list_loop self path (checkpoint_id # rest) checkpoints fs =
     (case checkpoint_path self checkpoint_id path fs of
        (os_path, fs) \<Rightarrow>
          if isfile fs os_path
          then (case checkpoint_model checkpoint_id os_path fs of
                  Inl e \<Rightarrow> (Inl e, fs)
                | Inr info \<Rightarrow> list_loop self path rest (checkpoints @ [info]) fs)
          else list_loop self path rest checkpoints fs)"

definition list_checkpoints ::
  "checkpoints \<Rightarrow> string \<Rightarrow> filesystem \<Rightarrow> (error + checkpoint_info list) \<times> filesystem" where
  "list_checkpoints self path fs =
     (let path = strip CHR ''/'' path;
          checkpoint_ids = get_checkpoint_ids self
      in case list_loop self path checkpoint_ids [] fs of
           (Inl e, fs) \<Rightarrow> (Inl e, fs)
         | (Inr checkpoints, fs) \<Rightarrow> (Inr (sorted_reverse last_modified checkpoints), fs))"

text \<open>
  \<open>create_checkpoint\<close> (lines 88-109). \<open>cur_time\<close> is the clock reading of line 98 and
  \<open>mtime\<close> the modification time the copy leaves on the checkpoint file. Lines 90-104
  choose the slot (\<open>create_checkpoint_id\<close>): \<open>used_checkpoints[0]\<close> raises \<open>IndexError\<close> on an
  empty list.
\<close>

definition create_checkpoint_id ::
  "checkpoints \<Rightarrow> string \<Rightarrow> datetime \<Rightarrow> filesystem \<Rightarrow> (error + string) \<times> filesystem" where
  "create_checkpoint_id self path cur_time fs =
     (case get_free_checkpoint_ids self path fs of
        (free_ids, fs) \<Rightarrow>
          if length free_ids > 0 then (Inr (free_ids ! 0), fs)
          else
            (case list_checkpoints self path fs of
               (Inl e, fs) \<Rightarrow> (Inl e, fs)
             | (Inr used_checkpoints, fs) \<Rightarrow>
                 (case used_checkpoints of
                    [] \<Rightarrow> (Inl IndexError, fs)
                  | first # _ \<Rightarrow>
                      if timedelta (last_modified first) cur_time
                           < min_seconds_between_checkpoints self
                      then (Inr (info_id first), fs)
                      else (Inr (info_id (last used_checkpoints)), fs))))"

definition create_checkpoint ::
  "checkpoints \<Rightarrow> contents_manager \<Rightarrow> string \<Rightarrow> datetime \<Rightarrow> datetime \<Rightarrow> filesystem
     \<Rightarrow> (error + checkpoint_info) \<times> filesystem" where
  "create_checkpoint self contents_mgr path cur_time mtime fs =
     (case create_checkpoint_id self path cur_time fs of
        (Inl e, fs) \<Rightarrow> (Inl e, fs)
      | (Inr checkpoint_id, fs) \<Rightarrow>
          (let src_path = cm_get_os_path contents_mgr path in
           case checkpoint_path self checkpoint_id path fs of
             (dest_path, fs) \<Rightarrow>
               (case copy src_path dest_path mtime fs of
                  (Inl e, fs) \<Rightarrow> (Inl e, fs)
                | (Inr u, fs) \<Rightarrow> (checkpoint_model checkpoint_id dest_path fs, fs))))"

text \<open>\<open>restore_checkpoint\<close> (lines 111-115).\<close>

definition restore_checkpoint ::
  "checkpoints \<Rightarrow> contents_manager \<Rightarrow> string \<Rightarrow> string \<Rightarrow> datetime \<Rightarrow> filesystem
     \<Rightarrow> (error + unit) \<times> filesystem" where
  "restore_checkpoint self contents_mgr checkpoint_id path mtime fs =
     (case checkpoint_path self checkpoint_id path fs of
        (src_path, fs) \<Rightarrow>
          (let dest_path = cm_get_os_path contents_mgr path
           in copy src_path dest_path mtime fs))"

text \<open>\<open>rename_checkpoint\<close> (lines 118-129).\<close>

definition rename_checkpoint ::
  "checkpoints \<Rightarrow> string \<Rightarrow> string \<Rightarrow> string \<Rightarrow> filesystem \<Rightarrow> (error + unit) \<times> filesystem" where
  "rename_checkpoint self checkpoint_id old_path new_path fs =
     (case checkpoint_path self checkpoint_id old_path fs of
        (old_cp_path, fs) \<Rightarrow>
          (case checkpoint_path self checkpoint_id new_path fs of
             (new_cp_path, fs) \<Rightarrow>
               if isfile fs old_cp_path then shutil_move old_cp_path new_cp_path fs
               else (Inr (), fs)))"

text \<open>\<open>delete_checkpoint\<close> (lines 131-140).\<close>

definition delete_checkpoint ::
  "checkpoints \<Rightarrow> string \<Rightarrow> string \<Rightarrow> filesystem \<Rightarrow> (error + unit) \<times> filesystem" where
  "delete_checkpoint self checkpoint_id path fs =
     (let path = strip CHR ''/'' path in
      case checkpoint_path self checkpoint_id path fs of
        (cp_path, fs) \<Rightarrow>
          if \<not> isfile fs cp_path then (Inl (no_such_checkpoint path checkpoint_id), fs)
          else os_unlink cp_path fs)"

subsection \<open>GenericFileCheckpoints\<close>

text \<open>The dicts returned by \<open>get_notebook_checkpoint\<close> and \<open>get_file_checkpoint\<close>.\<close>

datatype content_model =
    NotebookModel string
  | FileModel string string

text \<open>\<open>create_file_checkpoint\<close> (lines 195-206) and \<open>create_notebook_checkpoint\<close> (lines 208-219).\<close>

definition create_file_checkpoint ::
  "checkpoints \<Rightarrow> string \<Rightarrow> string \<Rightarrow> string \<Rightarrow> datetime \<Rightarrow> filesystem
     \<Rightarrow> (error + checkpoint_info) \<times> filesystem" where
  "create_file_checkpoint self content' format path mtime fs =
     (let path = strip CHR ''/'' path;
          checkpoint_id = ''checkpoint''
      in case checkpoint_path self checkpoint_id path fs of
           (os_checkpoint_path, fs) \<Rightarrow>
             (let fs = save_file os_checkpoint_path content' format mtime fs
              in (checkpoint_model checkpoint_id os_checkpoint_path fs, fs)))"

definition create_notebook_checkpoint ::
  "checkpoints \<Rightarrow> string \<Rightarrow> string \<Rightarrow> datetime \<Rightarrow> filesystem
     \<Rightarrow> (error + checkpoint_info) \<times> filesystem" where
  "create_notebook_checkpoint self nb path mtime fs =
     (let path = strip CHR ''/'' path;
          checkpoint_id = ''checkpoint''
      in case checkpoint_path self checkpoint_id path fs of
           (os_checkpoint_path, fs) \<Rightarrow>
             (let fs = save_notebook os_checkpoint_path nb mtime fs
              in (checkpoint_model checkpoint_id os_checkpoint_path fs, fs)))"

text \<open>
  \<open>get_notebook_checkpoint\<close> (lines 221-236) and \<open>get_file_checkpoint\<close> (lines 238-252).
  \<open>_read_notebook\<close> and \<open>_read_file\<close> (fileio.py) are parameters: any reader of the file
  system that returns the parsed notebook, or the content and its format, or raises.
\<close>

definition get_notebook_checkpoint ::
  "checkpoints \<Rightarrow> (string \<Rightarrow> filesystem \<Rightarrow> error + string) \<Rightarrow> string \<Rightarrow> string \<Rightarrow> filesystem
     \<Rightarrow> (error + content_model) \<times> filesystem" where
  "get_notebook_checkpoint self read_notebook checkpoint_id path fs =
     (let path = strip CHR ''/'' path in
      case checkpoint_path self checkpoint_id path fs of
        (os_checkpoint_path, fs) \<Rightarrow>
          if \<not> isfile fs os_checkpoint_path
          then (Inl (no_such_checkpoint path checkpoint_id), fs)
          else (case read_notebook os_checkpoint_path fs of
                  Inl e \<Rightarrow> (Inl e, fs)
                | Inr nb \<Rightarrow> (Inr (NotebookModel nb), fs)))"

definition get_file_checkpoint ::
  "checkpoints \<Rightarrow> (string \<Rightarrow> filesystem \<Rightarrow> error + string \<times> string) \<Rightarrow> string \<Rightarrow> string
     \<Rightarrow> filesystem \<Rightarrow> (error + content_model) \<times> filesystem" where
  "get_file_checkpoint self read_file checkpoint_id path fs =
     (let path = strip CHR ''/'' path in
      case checkpoint_path self checkpoint_id path fs of
        (os_checkpoint_path, fs) \<Rightarrow>
          if \<not> isfile fs os_checkpoint_path
          then (Inl (no_such_checkpoint path checkpoint_id), fs)
          else (case read_file os_checkpoint_path fs of
                  Inl e \<Rightarrow> (Inl e, fs)
                | Inr (content', format) \<Rightarrow> (Inr (FileModel content' format), fs)))"

subsection \<open>Sequences of calls\<close>

text \<open>
  A finite sequence of \<open>create_checkpoint\<close> calls on one document path, each with its clock
  reading and the modification time its copy leaves. A call that raises leaves the state
  it reached, and the next call goes on from there.
\<close>

fun create_checkpoints ::
  "checkpoints \<Rightarrow> contents_manager \<Rightarrow> string \<Rightarrow> (datetime \<times> datetime) list \<Rightarrow> filesystem
     \<Rightarrow> filesystem" where
  "create_checkpoints self contents_mgr path [] fs = fs"
| "create_checkpoints self contents_mgr path ((cur_time, mtime) # calls) fs =
     create_checkpoints self contents_mgr path calls
       (snd (create_checkpoint self contents_mgr path cur_time mtime fs))"

subsection \<open>Derived notions used to state the properties\<close>

text \<open>
  The path that \<open>checkpoint_path\<close> returns does not depend on the file system (lemma
  \<open>fst_checkpoint_path\<close>): \<open>slot_path\<close> names it. \<open>slot_info\<close> is the info dict that
  \<open>checkpoint_model\<close> builds for a slot whose checkpoint file exists.
\<close>

definition slot_path :: "checkpoints \<Rightarrow> string \<Rightarrow> string \<Rightarrow> string" where
  "slot_path self path checkpoint_id =
     fst (checkpoint_path self checkpoint_id path \<lparr>files = Map.empty, dirs = {}\<rparr>)"

definition slot_info :: "checkpoints \<Rightarrow> string \<Rightarrow> filesystem \<Rightarrow> string \<Rightarrow> checkpoint_info" where
  "slot_info self path fs checkpoint_id =
     \<lparr>info_id = checkpoint_id,
      last_modified = utcfromtimestamp (st_mtime (the (files fs (slot_path self path checkpoint_id))))\<rparr>"

subsection \<open>The naming convention in the words of the specification\<close>

text \<open>
  The specification splits the normalised document path into parent directory and file
  name at the last separator, and the file name into base name and extension at the last
  dot (a name made of dots up to its last dot has no extension). These definitions follow
  those words; \<open>checkpoint_path_spec\<close> composes them as the specification describes, and
  is compared with \<open>checkpoint_path\<close> below.
\<close>

definition spec_parent :: "string \<Rightarrow> string" where
  "spec_parent p = rev (drop 1 (dropWhile (\<lambda>x. x \<noteq> CHR ''/'') (rev p)))"

definition spec_name :: "string \<Rightarrow> string" where
  "spec_name p = rev (takeWhile (\<lambda>x. x \<noteq> CHR ''/'') (rev p))"

definition spec_extension :: "string \<Rightarrow> string" where
  "spec_extension name =
     (let stem = rev (drop 1 (dropWhile (\<lambda>x. x \<noteq> CHR ''.'') (rev name)));
          e = rev (takeWhile (\<lambda>x. x \<noteq> CHR ''.'') (rev name))
      in if CHR ''.'' \<in> set name \<and> filter (\<lambda>x. x \<noteq> CHR ''.'') stem \<noteq> []
         then CHR ''.'' # e else [])"

definition spec_base :: "string \<Rightarrow> string" where
  "spec_base name = take (length name - length (spec_extension name)) name"

definition checkpoint_path_spec :: "checkpoints \<Rightarrow> string \<Rightarrow> string \<Rightarrow> string" where
  "checkpoint_path_spec self slot_id path =
     (let p = strip CHR ''/'' path;
          parent = strip CHR ''/'' (spec_parent p);
          name = spec_name p;
          directory = os_path_join (get_os_path self parent) (checkpoint_dir self)
      in os_path_join directory (spec_base name @ ''-'' @ slot_id @ spec_extension name))"

subsection \<open>A concrete installation\<close>

text \<open>
  A pool of two slots with the default debounce threshold, rooted at \<open>/srv\<close>, and the
  notebook \<open>nb.ipynb\<close>: first without checkpoints, then with both slots in use
  (\<open>checkpoint0\<close> written at 0 s and \<open>checkpoint1\<close> at 5 s).
\<close>

definition example_self :: checkpoints where
  "example_self =
     \<lparr>checkpoint_dir = ''.ipynb_checkpoints'', max_checkpoints = 2,
      min_seconds_between_checkpoints = 60, get_os_path = os_path_join ''/srv''\<rparr>"

definition example_mgr :: contents_manager where
  "example_mgr = \<lparr>cm_get_os_path = os_path_join ''/srv''\<rparr>"

definition example_doc :: regular_file where
  "example_doc = \<lparr>st_mtime = 0, content = ''v1''\<rparr>"

definition example_fs :: "(string \<times> regular_file) list \<Rightarrow> filesystem" where
  "example_fs kvs = \<lparr>files = map_of kvs, dirs = {}\<rparr>"

definition example_fs_free :: filesystem where
  "example_fs_free = example_fs [(''/srv/nb.ipynb'', example_doc)]"

definition example_fs_full :: filesystem where
  "example_fs_full = example_fs
     [(''/srv/nb.ipynb'', example_doc),
      (''/srv/.ipynb_checkpoints/nb-checkpoint0.ipynb'', \<lparr>st_mtime = 0, content = ''v1''\<rparr>),
      (''/srv/.ipynb_checkpoints/nb-checkpoint1.ipynb'', \<lparr>st_mtime = 5000000, content = ''v1''\<rparr>)]"

text \<open>
  Both slots in use, with \<open>checkpoint1\<close> modified at 65.999999 s: ahead of a clock that
  reads 6 s.
\<close>

definition example_fs_ahead :: filesystem where
  "example_fs_ahead = example_fs
     [(''/srv/nb.ipynb'', example_doc),
      (''/srv/.ipynb_checkpoints/nb-checkpoint0.ipynb'', \<lparr>st_mtime = 0, content = ''v1''\<rparr>),
      (''/srv/.ipynb_checkpoints/nb-checkpoint1.ipynb'', \<lparr>st_mtime = 65999999, content = ''v1''\<rparr>)]"

text \<open>Both slots in use with the same modification time.\<close>

definition example_fs_tie :: filesystem where
  "example_fs_tie = example_fs
     [(''/srv/nb.ipynb'', example_doc),
      (''/srv/.ipynb_checkpoints/nb-checkpoint0.ipynb'', \<lparr>st_mtime = 5000000, content = ''v1''\<rparr>),
      (''/srv/.ipynb_checkpoints/nb-checkpoint1.ipynb'', \<lparr>st_mtime = 5000000, content = ''v1''\<rparr>)]"

text \<open>
  The scenario of the specification: creates at 0 s, 5 s, 10 s and 1000 s, each copy
  stamped with the time of its call.
\<close>

definition example_calls :: "(datetime \<times> datetime) list" where
  "example_calls = [(0, 0), (5000000, 5000000), (10000000, 10000000), (1000000000, 1000000000)]"

text \<open>Readers of a checkpoint file, standing for \<open>_read_file\<close> and \<open>_read_notebook\<close>.\<close>

definition example_read_file :: "string \<Rightarrow> filesystem \<Rightarrow> error + string \<times> string" where
  "example_read_file os_path fs =
     (case files fs os_path of
        None \<Rightarrow> Inl (FileNotFoundError os_path)
      | Some f \<Rightarrow> Inr (content f, ''text''))"

definition example_read_notebook :: "string \<Rightarrow> filesystem \<Rightarrow> error + string" where
  "example_read_notebook os_path fs =
     (case files fs os_path of
        None \<Rightarrow> Inl (FileNotFoundError os_path)
      | Some f \<Rightarrow> Inr (content f))"

section \<open>Auxiliary facts\<close>

declare splitext_loop.simps [simp del]
declare format_nat.simps [simp del]


subsection \<open>Strings and paths\<close>

lemma dropWhile_rev_dropWhile:
  assumes "dropWhile P t = t"
  shows "dropWhile P (rev (dropWhile P (rev t))) = rev (dropWhile P (rev t))"
proof (cases t)
  case Nil
  then show ?thesis by simp
next
  case (Cons x xs)
  have nP: "\<not> P x"
  proof
    assume "P x"
    with assms Cons have "dropWhile P xs = x # xs" by simp
    then have "length (dropWhile P xs) = Suc (length xs)" by simp
    moreover have "length (dropWhile P xs) \<le> length xs" by (rule length_dropWhile_le)
    ultimately show False by simp
  qed
  show ?thesis using nP Cons by (simp add: dropWhile_append)
qed

lemma strip_strip: "strip c (strip c s) = strip c s"
  unfolding strip_def
  by (simp add: dropWhile_rev_dropWhile dropWhile_idem)

lemma checkpoint_path_fst: "fst (checkpoint_path self cid path fs) = fst (checkpoint_path self cid path fs')"
  by (simp add: checkpoint_path_def Let_def split: prod.splits)

lemma checkpoint_path_files: "files (snd (checkpoint_path self cid path fs)) = files fs"
  by (simp add: checkpoint_path_def Let_def ensure_dir_exists_def split: prod.splits)

lemma checkpoint_path_dirs: "dirs fs \<subseteq> dirs (snd (checkpoint_path self cid path fs))"
  by (auto simp add: checkpoint_path_def Let_def ensure_dir_exists_def split: prod.splits)

lemma checkpoint_path_strip: "checkpoint_path self cid (strip CHR ''/'' path) fs = checkpoint_path self cid path fs"
  by (simp add: checkpoint_path_def strip_strip)

lemma isfile_cong: "files fs' = files fs \<Longrightarrow> isfile fs' p = isfile fs p"
  by (simp add: isfile_def)

lemma fst_checkpoint_path: "fst (checkpoint_path self cid path fs) = slot_path self path cid"
  unfolding slot_path_def by (rule checkpoint_path_fst)

lemma checkpoint_path_eq:
  "checkpoint_path self cid path fs = (p, fs') \<Longrightarrow> p = slot_path self path cid \<and> files fs' = files fs \<and> dirs fs \<subseteq> dirs fs'"
  using fst_checkpoint_path[of self cid path fs] checkpoint_path_files[of self cid path fs]
    checkpoint_path_dirs[of fs self cid path] by simp

lemma slot_path_strip: "slot_path self (strip CHR ''/'' path) cid = slot_path self path cid"
  by (simp add: slot_path_def checkpoint_path_strip)

lemma free_ids_loop_fst:
  "fst (free_ids_loop self path ids acc fs) =
     acc @ filter (\<lambda>cid. \<not> isfile fs (slot_path self path cid)) ids"
proof (induction ids arbitrary: acc fs)
  case Nil
  then show ?case by simp
next
  case (Cons cid ids)
  obtain p fs1 where cp: "checkpoint_path self cid path fs = (p, fs1)" by (cases "checkpoint_path self cid path fs")
  from checkpoint_path_eq[OF cp] have p: "p = slot_path self path cid" and f: "files fs1 = files fs" by auto
  have iso: "isfile fs1 q = isfile fs q" for q by (simp add: isfile_def f)
  show ?case by (simp add: cp Cons.IH iso p)
qed

lemma free_ids_loop_files:
  "files (snd (free_ids_loop self path ids acc fs)) = files fs"
proof (induction ids arbitrary: acc fs)
  case Nil
  then show ?case by simp
next
  case (Cons cid ids)
  obtain p fs1 where cp: "checkpoint_path self cid path fs = (p, fs1)" by (cases "checkpoint_path self cid path fs")
  from checkpoint_path_eq[OF cp] have f: "files fs1 = files fs" by auto
  show ?case by (simp add: cp Cons.IH f)
qed

lemma list_loop_fst:
  "fst (list_loop self path ids acc fs) =
     Inr (acc @ map (slot_info self path fs) (filter (\<lambda>cid. isfile fs (slot_path self path cid)) ids))"
proof (induction ids arbitrary: acc fs)
  case Nil
  then show ?case by simp
next
  case (Cons cid ids)
  obtain p fs1 where cp: "checkpoint_path self cid path fs = (p, fs1)" by (cases "checkpoint_path self cid path fs")
  from checkpoint_path_eq[OF cp] have p: "p = slot_path self path cid" and f: "files fs1 = files fs" by auto
  have iso: "isfile fs1 q = isfile fs q" for q by (simp add: isfile_def f)
  have si: "slot_info self path fs1 = slot_info self path fs" by (rule ext) (simp add: slot_info_def f)
  show ?case
    by (auto simp add: cp Cons.IH iso p si checkpoint_model_def isfile_def f slot_info_def utcfromtimestamp_def split: option.splits)
qed

lemma list_loop_files:
  "files (snd (list_loop self path ids acc fs)) = files fs"
proof (induction ids arbitrary: acc fs)
  case Nil
  then show ?case by simp
next
  case (Cons cid ids)
  obtain p fs1 where cp: "checkpoint_path self cid path fs = (p, fs1)" by (cases "checkpoint_path self cid path fs")
  from checkpoint_path_eq[OF cp] have f: "files fs1 = files fs" by auto
  show ?case by (simp add: cp Cons.IH f split: sum.splits)
qed

lemma get_free_fst:
  "fst (get_free_checkpoint_ids self path fs) =
     filter (\<lambda>cid. \<not> isfile fs (slot_path self path cid)) (get_checkpoint_ids self)"
  by (simp add: get_free_checkpoint_ids_def free_ids_loop_fst slot_path_strip)

lemma get_free_files: "files (snd (get_free_checkpoint_ids self path fs)) = files fs"
  by (simp add: get_free_checkpoint_ids_def free_ids_loop_files)

lemma list_checkpoints_fst:
  "fst (list_checkpoints self path fs) =
     Inr (sorted_reverse last_modified
            (map (slot_info self path fs)
               (filter (\<lambda>cid. isfile fs (slot_path self path cid)) (get_checkpoint_ids self))))"
proof -
  let ?p = "strip CHR ''/'' path"
  obtain r fs1 where l: "list_loop self ?p (get_checkpoint_ids self) [] fs = (r, fs1)"
    by (cases "list_loop self ?p (get_checkpoint_ids self) [] fs")
  have si: "slot_info self ?p fs = slot_info self path fs" by (rule ext) (simp add: slot_info_def slot_path_strip)
  from l list_loop_fst[of self ?p "get_checkpoint_ids self" "[]" fs]
  show ?thesis by (simp add: list_checkpoints_def slot_path_strip si)
qed

lemma list_checkpoints_files: "files (snd (list_checkpoints self path fs)) = files fs"
proof -
  let ?p = "strip CHR ''/'' path"
  obtain r fs1 where l: "list_loop self ?p (get_checkpoint_ids self) [] fs = (r, fs1)"
    by (cases "list_loop self ?p (get_checkpoint_ids self) [] fs")
  from l list_loop_files[of self ?p "get_checkpoint_ids self" "[]" fs]
  show ?thesis by (simp add: list_checkpoints_def split: sum.splits)
qed

lemma rfind_bounds: "-1 \<le> rfind c s \<and> rfind c s < int (length s)"
  by (induction s) (auto simp: Let_def)

lemma rfind_none_iff: "rfind c s = -1 \<longleftrightarrow> c \<notin> set s"
proof (induction s)
  case Nil
  then show ?case by simp
next
  case (Cons x xs)
  with rfind_bounds[of c xs] show ?case by (auto simp: Let_def)
qed

lemma rfind_split:
  assumes "c \<in> set s"
  shows "s = take (nat (rfind c s)) s @ c # drop (nat (rfind c s) + 1) s
         \<and> c \<notin> set (drop (nat (rfind c s) + 1) s)"
  using assms
proof (induction s)
  case Nil
  then show ?case by simp
next
  case (Cons x xs)
  show ?case
  proof (cases "c \<in> set xs")
    case True
    then have ne: "rfind c xs \<noteq> -1" by (simp add: rfind_none_iff)
    with rfind_bounds[of c xs] have ge: "0 \<le> rfind c xs" by simp
    then have n: "nat (rfind c xs + 1) = Suc (nat (rfind c xs))" by simp
    from Cons.IH[OF True] ne show ?thesis by (simp add: Let_def n)
  next
    case False
    then have "rfind c xs = -1" by (simp add: rfind_none_iff)
    with False Cons.prems show ?thesis by (simp add: Let_def)
  qed
qed

lemma split_last_occurrence:
  assumes "s = a @ c # b" and "c \<notin> set b"
  shows "rev (takeWhile (\<lambda>x. x \<noteq> c) (rev s)) = b"
    and "rev (drop 1 (dropWhile (\<lambda>x. x \<noteq> c) (rev s))) = a"
proof -
  have r: "rev s = rev b @ c # rev a" using assms by simp
  have nb: "x \<in> set (rev b) \<Longrightarrow> x \<noteq> c" for x using assms by auto
  have "takeWhile (\<lambda>x. x \<noteq> c) (rev b @ c # rev a) = rev b @ takeWhile (\<lambda>x. x \<noteq> c) (c # rev a)"
    by (rule takeWhile_append2) (rule nb)
  then show "rev (takeWhile (\<lambda>x. x \<noteq> c) (rev s)) = b"
    unfolding r by simp
  have "dropWhile (\<lambda>x. x \<noteq> c) (rev b @ c # rev a) = dropWhile (\<lambda>x. x \<noteq> c) (c # rev a)"
    by (rule dropWhile_append2) (rule nb)
  then show "rev (drop 1 (dropWhile (\<lambda>x. x \<noteq> c) (rev s))) = a"
    unfolding r by simp
qed

lemma rsplit1_present:
  assumes "c \<in> set s"
  shows "rsplit1 c s = (rev (drop 1 (dropWhile (\<lambda>x. x \<noteq> c) (rev s))),
                        rev (takeWhile (\<lambda>x. x \<noteq> c) (rev s)))"
proof -
  let ?i = "nat (rfind c s)"
  from rfind_split[OF assms] have s: "s = take ?i s @ c # drop (?i + 1) s"
    and n: "c \<notin> set (drop (?i + 1) s)" by blast+
  have ne: "rfind c s \<noteq> -1" using assms by (simp add: rfind_none_iff)
  from split_last_occurrence[OF s n] ne show ?thesis
    by (simp add: rsplit1_def Let_def)
qed

lemma strip_Cons_same: "strip c (c # s) = strip c s"
  by (simp add: strip_def)

lemma splitext_loop_iff:
  "0 \<le> i \<Longrightarrow> d \<le> int (length p) \<Longrightarrow>
   splitext_loop p i d = (filter (\<lambda>x. x \<noteq> CHR ''.'') (drop (nat i) (take (nat d) p)) \<noteq> [])"
proof (induction p i d rule: splitext_loop.induct)
  case (1 p i d)
  show ?case
  proof (cases "i < d")
    case False
    then show ?thesis using "1.prems" by (subst splitext_loop.simps) simp
  next
    case True
    with "1.prems" have lt: "nat i < length (take (nat d) p)" by simp
    have dr: "drop (nat i) (take (nat d) p) = p ! nat i # drop (nat (i + 1)) (take (nat d) p)"
      using Cons_nth_drop_Suc[OF lt] "1.prems" True by (simp add: nat_add_distrib)
    show ?thesis
    proof (cases "p ! nat i \<noteq> CHR ''.''")
      case True
      with \<open>i < d\<close> show ?thesis by (subst splitext_loop.simps) (simp add: dr)
    next
      case False
      with "1.IH"[OF \<open>i < d\<close>] "1.prems" \<open>i < d\<close> show ?thesis
        by (subst splitext_loop.simps) (simp add: dr)
    qed
  qed
qed

lemma splitext_spec:
  assumes "CHR ''/'' \<notin> set name"
  shows "splitext name = (spec_base name, spec_extension name)"
proof (cases "CHR ''.'' \<in> set name")
  case False
  then show ?thesis
    using assms rfind_none_iff[of "CHR ''/''" name] rfind_none_iff[of "CHR ''.''" name]
    by (simp add: splitext_def spec_base_def spec_extension_def Let_def)
next
  case True
  let ?d = "rfind CHR ''.'' name"
  from rfind_split[OF True] have s: "name = take (nat ?d) name @ CHR ''.'' # drop (nat ?d + 1) name"
    and n: "CHR ''.'' \<notin> set (drop (nat ?d + 1) name)" by blast+
  have ne: "?d \<noteq> -1" using True by (simp add: rfind_none_iff)
  with rfind_bounds[of "CHR ''.''" name] have ge: "0 \<le> ?d" and lt: "?d < int (length name)" by auto
  have sep: "rfind CHR ''/'' name = -1" using assms by (simp add: rfind_none_iff)
  have stem: "rev (drop 1 (dropWhile (\<lambda>x. x \<noteq> CHR ''.'') (rev name))) = take (nat ?d) name"
    and e: "rev (takeWhile (\<lambda>x. x \<noteq> CHR ''.'') (rev name)) = drop (nat ?d + 1) name"
    using split_last_occurrence[OF s n] by simp_all
  have loop: "splitext_loop name 0 ?d = (filter (\<lambda>x. x \<noteq> CHR ''.'') (take (nat ?d) name) \<noteq> [])"
    using splitext_loop_iff[of 0 ?d name] lt by simp
  have dr: "drop (nat ?d) name = CHR ''.'' # drop (nat ?d + 1) name"
    using s by (metis append_eq_conv_conj append_take_drop_id) 
  have len: "length name - length (drop (nat ?d) name) = nat ?d" using lt ge by simp
  show ?thesis
  proof (cases "filter (\<lambda>x. x \<noteq> CHR ''.'') (take (nat ?d) name) \<noteq> []")
    case True
    have ext: "spec_extension name = drop (nat ?d) name"
      using True \<open>CHR ''.'' \<in> set name\<close> unfolding spec_extension_def Let_def stem e by (simp add: dr)
    show ?thesis
      using True ge by (simp add: splitext_def Let_def sep loop spec_base_def ext len del: length_drop)
  next
    case False
    then have ext: "spec_extension name = []"
      unfolding spec_extension_def Let_def stem by simp
    show ?thesis
      using False by (simp add: splitext_def Let_def sep loop spec_base_def ext)
  qed
qed

lemma spec_name_no_slash: "CHR ''/'' \<notin> set (spec_name p)"
  unfolding spec_name_def using set_takeWhileD[of "CHR ''/''" "\<lambda>x. x \<noteq> CHR ''/''" "rev p"] by auto

lemma rsplit1_slash:
  "rsplit1 CHR ''/'' (CHR ''/'' # p) = (parent, name) \<Longrightarrow>
     strip CHR ''/'' parent = strip CHR ''/'' (spec_parent p) \<and> name = spec_name p"
proof -
  assume rs: "rsplit1 CHR ''/'' (CHR ''/'' # p) = (parent, name)"
  let ?P = "\<lambda>x. x \<noteq> CHR ''/''"
  have "CHR ''/'' \<in> set (CHR ''/'' # p)" by simp
  from rsplit1_present[OF this] rs
  have parent: "parent = rev (drop 1 (dropWhile ?P (rev (CHR ''/'' # p))))"
    and name: "name = rev (takeWhile ?P (rev (CHR ''/'' # p)))" by simp_all
  show ?thesis
  proof (cases "CHR ''/'' \<in> set p")
    case True
    then obtain y ys where d: "dropWhile ?P (rev p) = y # ys"
      by (cases "dropWhile ?P (rev p)") (auto simp: dropWhile_eq_Nil_conv)
    have dw: "dropWhile ?P (rev p @ [CHR ''/'']) = dropWhile ?P (rev p) @ [CHR ''/'']"
      using True by (auto simp: dropWhile_append)
    have tw: "takeWhile ?P (rev p @ [CHR ''/'']) = takeWhile ?P (rev p)"
      using True by (auto simp: takeWhile_append)
    have "parent = CHR ''/'' # spec_parent p"
      unfolding parent spec_parent_def by (simp add: dw d)
    moreover have "name = spec_name p"
      unfolding name spec_name_def by (simp add: tw)
    ultimately show ?thesis by (simp add: strip_Cons_same)
  next
    case False
    then have all: "\<And>x. x \<in> set (rev p) \<Longrightarrow> ?P x" by auto
    have d: "dropWhile ?P (rev p) = []" using False by (auto simp: dropWhile_eq_Nil_conv)
    have t: "takeWhile ?P (rev p) = rev p" using False by (auto simp: takeWhile_eq_all_conv)
    have dw: "dropWhile ?P (rev p @ [CHR ''/'']) = [CHR ''/'']"
      using dropWhile_append2[of "rev p" ?P "[CHR ''/'']"] all by simp
    have tw: "takeWhile ?P (rev p @ [CHR ''/'']) = rev p"
      using takeWhile_append2[of "rev p" ?P "[CHR ''/'']"] all by simp
    have "parent = []" unfolding parent by (simp add: dw)
    moreover have "spec_parent p = []" unfolding spec_parent_def by (simp add: d)
    moreover have "name = spec_name p" unfolding name spec_name_def by (simp add: tw t)
    ultimately show ?thesis by simp
  qed
qed

lemma slot_path_spec: "slot_path self path cid = checkpoint_path_spec self cid path"
proof -
  let ?p = "strip CHR ''/'' path"
  obtain parent name where rs: "rsplit1 CHR ''/'' (CHR ''/'' # ?p) = (parent, name)"
    by (cases "rsplit1 CHR ''/'' (CHR ''/'' # ?p)")
  from rsplit1_slash[OF rs] have parent: "strip CHR ''/'' parent = strip CHR ''/'' (spec_parent ?p)"
    and name: "name = spec_name ?p" by simp_all
  have sp: "splitext name = (spec_base name, spec_extension name)"
    unfolding name by (rule splitext_spec[OF spec_name_no_slash])
  have "slot_path self path cid =
          os_path_join (os_path_join (get_os_path self (strip CHR ''/'' parent)) (checkpoint_dir self))
            (spec_base name @ ''-'' @ cid @ spec_extension name)"
    unfolding slot_path_def checkpoint_path_def Let_def by (simp add: rs sp)
  then show ?thesis
    unfolding checkpoint_path_spec_def Let_def parent name by simp
qed

lemma spec_base_ext: "spec_base name @ spec_extension name = name"
proof (cases "CHR ''.'' \<in> set name")
  case False
  then show ?thesis by (simp add: spec_base_def spec_extension_def Let_def)
next
  case True
  let ?d = "nat (rfind CHR ''.'' name)"
  from rfind_split[OF True] have s: "name = take ?d name @ CHR ''.'' # drop (?d + 1) name"
    and n: "CHR ''.'' \<notin> set (drop (?d + 1) name)" by blast+
  have e: "rev (takeWhile (\<lambda>x. x \<noteq> CHR ''.'') (rev name)) = drop (?d + 1) name"
    using split_last_occurrence[OF s n] by simp
  have dr: "drop ?d name = CHR ''.'' # drop (?d + 1) name"
    using s by (metis append_eq_conv_conj append_take_drop_id)
  have "spec_extension name = drop ?d name \<or> spec_extension name = []"
    unfolding spec_extension_def Let_def e dr by simp
  then show ?thesis
  proof
    assume x: "spec_extension name = drop ?d name"
    have "?d \<le> length name" using rfind_bounds[of "CHR ''.''" name] by linarith
    then have "length name - length (drop ?d name) = ?d" by simp
    then show ?thesis unfolding spec_base_def x by (simp del: length_drop)
  next
    assume "spec_extension name = []"
    then show ?thesis by (simp add: spec_base_def)
  qed
qed

lemma spec_path_split:
  "CHR ''/'' \<in> set p \<Longrightarrow> p = spec_parent p @ ''/'' @ spec_name p"
  "CHR ''/'' \<notin> set p \<Longrightarrow> spec_parent p = [] \<and> spec_name p = p"
proof -
  let ?P = "\<lambda>x. x \<noteq> CHR ''/''"
  show "p = spec_parent p @ ''/'' @ spec_name p" if "CHR ''/'' \<in> set p"
  proof -
    let ?i = "nat (rfind CHR ''/'' p)"
    from rfind_split[OF that] have s: "p = take ?i p @ CHR ''/'' # drop (?i + 1) p"
      and n: "CHR ''/'' \<notin> set (drop (?i + 1) p)" by blast+
    from split_last_occurrence[OF s n] have "spec_name p = drop (?i + 1) p" "spec_parent p = take ?i p"
      by (simp_all add: spec_name_def spec_parent_def)
    with s show ?thesis by simp
  qed
  show "spec_parent p = [] \<and> spec_name p = p" if "CHR ''/'' \<notin> set p"
  proof -
    have d: "dropWhile ?P (rev p) = []" using that by (auto simp: dropWhile_eq_Nil_conv)
    have t: "takeWhile ?P (rev p) = rev p" using that by (auto simp: takeWhile_eq_all_conv)
    show ?thesis unfolding spec_parent_def spec_name_def d t by simp
  qed
qed

lemma filename_relative:
  assumes "CHR ''/'' \<notin> set name"
  shows "take 1 (spec_base name @ ''-'' @ cid @ spec_extension name) \<noteq> ''/''"
proof (cases "spec_base name")
  case Nil
  then show ?thesis by simp
next
  case (Cons x xs)
  then have "x \<in> set (spec_base name)" by simp
  then have "x \<in> set name" unfolding spec_base_def by (rule in_set_takeD)
  with assms have "x \<noteq> CHR ''/''" by auto
  with Cons show ?thesis by simp
qed

lemma os_path_join_relative:
  "take 1 b \<noteq> ''/'' \<Longrightarrow> \<exists>sep. (sep = [] \<or> sep = ''/'') \<and> os_path_join a b = a @ sep @ b"
  by (auto simp: os_path_join_def)

lemma os_path_join_inject:
  assumes "take 1 b \<noteq> ''/''" "take 1 b' \<noteq> ''/''" "os_path_join a b = os_path_join a b'"
  shows "b = b'"
  using assms by (auto simp: os_path_join_def split: if_splits)

lemma slot_path_inject:
  assumes "slot_path self path c = slot_path self path c'"
  shows "c = c'"
proof -
  let ?name = "spec_name (strip CHR ''/'' path)"
  have "spec_base ?name @ ''-'' @ c @ spec_extension ?name
          = spec_base ?name @ ''-'' @ c' @ spec_extension ?name"
    using assms unfolding slot_path_spec checkpoint_path_spec_def Let_def
    by (rule os_path_join_inject[OF filename_relative[OF spec_name_no_slash]
          filename_relative[OF spec_name_no_slash]])
  then show ?thesis by simp
qed

subsection \<open>Sorting\<close>

lemma set_sorted_reverse: "set (sorted_reverse k xs) = set xs"
  by (simp add: sorted_reverse_def)

lemma length_sorted_reverse: "length (sorted_reverse k xs) = length xs"
  by (simp add: sorted_reverse_def)

lemma sorted_reverse_Nil_iff: "sorted_reverse k xs = [] \<longleftrightarrow> xs = []"
  using length_sorted_reverse[of k xs] by (metis length_0_conv)

lemma insort_key_lex:
  assumes "sorted_wrt (\<lambda>a b. f a < f b \<or> f a = f b \<and> R a b) ys" and "\<forall>y\<in>set ys. R x y"
  shows "sorted_wrt (\<lambda>a b. f a < f b \<or> f a = f b \<and> R a b) (insort_key f x ys)"
  using assms
proof (induction ys)
  case Nil
  then show ?case by simp
next
  case (Cons y ys)
  show ?case
  proof (cases "f x \<le> f y")
    case True
    have "f x < f z \<or> f x = f z \<and> R x z" if "z \<in> set (y # ys)" for z
    proof -
      have "f y \<le> f z" using Cons.prems(1) that by auto
      with True have "f x \<le> f z" by simp
      moreover have "R x z" using Cons.prems(2) that by auto
      ultimately show ?thesis by auto
    qed
    with True Cons.prems(1) show ?thesis by simp
  next
    case False
    with Cons show ?thesis by (auto simp: set_insort_key)
  qed
qed

lemma sort_key_lex:
  "sorted_wrt R xs \<Longrightarrow> sorted_wrt (\<lambda>a b. f a < f b \<or> f a = f b \<and> R a b) (sort_key f xs)"
  by (induction xs) (auto intro: insort_key_lex)

lemma sorted_reverse_lex:
  "sorted_wrt R xs \<Longrightarrow>
   sorted_wrt (\<lambda>a b. k a > k b \<or> k a = k b \<and> R a b) (sorted_reverse k xs)"
  unfolding sorted_reverse_def using sort_key_lex[of R xs "\<lambda>x. - k x"] by simp

lemma sorted_reverse_desc: "sorted_wrt (\<lambda>a b. k a \<ge> k b) (sorted_reverse k xs)"
proof -
  have "sorted (map (\<lambda>x. - k x) (sort_key (\<lambda>x. - k x) xs))" by (rule sorted_sort_key)
  then show ?thesis by (simp add: sorted_reverse_def sorted_map sorted_wrt_iff_nth_less) 
qed

lemma sorted_reverse_hd:
  assumes "sorted_reverse k xs = first # rest" and "x \<in> set xs"
  shows "k x \<le> k first"
proof -
  have "x \<in> set (first # rest)" using assms set_sorted_reverse[of k xs] by simp
  moreover have "sorted_wrt (\<lambda>a b. k a \<ge> k b) (first # rest)" using sorted_reverse_desc[of k xs] assms(1) by simp
  ultimately show ?thesis by auto
qed

lemma sorted_wrt_last:
  "sorted_wrt P xs \<Longrightarrow> x \<in> set xs \<Longrightarrow> x = last xs \<or> P x (last xs)"
  by (induction xs) auto

lemma sorted_reverse_last:
  assumes "x \<in> set xs"
  shows "k (last (sorted_reverse k xs)) \<le> k x"
proof -
  have "x \<in> set (sorted_reverse k xs)" using assms by (simp add: set_sorted_reverse)
  with sorted_wrt_last[OF sorted_reverse_desc[of k xs], of x] show ?thesis by auto
qed

subsection \<open>Slot selection and creation\<close>

lemma create_checkpoint_id_files:
  "files (snd (create_checkpoint_id self path t fs)) = files fs"
proof -
  obtain free fs1 where g: "get_free_checkpoint_ids self path fs = (free, fs1)"
    by (cases "get_free_checkpoint_ids self path fs")
  obtain r fs2 where l: "list_checkpoints self path fs1 = (r, fs2)"
    by (cases "list_checkpoints self path fs1")
  have f1: "files fs1 = files fs" using get_free_files[of self path fs] g by simp
  have f2: "files fs2 = files fs1" using list_checkpoints_files[of self path fs1] l by simp
  show ?thesis
    by (simp add: create_checkpoint_id_def g l f1 f2 split: sum.splits list.splits)
qed

lemma create_checkpoint_id_fst:
  "fst (create_checkpoint_id self path t fs) =
     (let pool = get_checkpoint_ids self;
          free_ids = filter (\<lambda>cid. \<not> isfile fs (slot_path self path cid)) pool;
          used = sorted_reverse last_modified
                   (map (slot_info self path fs)
                      (filter (\<lambda>cid. isfile fs (slot_path self path cid)) pool))
      in if free_ids \<noteq> [] then Inr (hd free_ids)
         else (case used of
                 [] \<Rightarrow> Inl IndexError
               | first # rest \<Rightarrow>
                   if timedelta (last_modified first) t < min_seconds_between_checkpoints self
                   then Inr (info_id first) else Inr (info_id (last used))))"
proof -
  obtain free fs1 where g: "get_free_checkpoint_ids self path fs = (free, fs1)"
    by (cases "get_free_checkpoint_ids self path fs")
  obtain r fs2 where l: "list_checkpoints self path fs1 = (r, fs2)"
    by (cases "list_checkpoints self path fs1")
  have f1: "files fs1 = files fs" using get_free_files[of self path fs] g by simp
  have free: "free = filter (\<lambda>cid. \<not> isfile fs (slot_path self path cid)) (get_checkpoint_ids self)"
    using get_free_fst[of self path fs] g by simp
  have iso: "isfile fs1 q = isfile fs q" for q by (simp add: isfile_def f1)
  have si: "slot_info self path fs1 = slot_info self path fs" by (rule ext) (simp add: slot_info_def f1)
  have r: "r = Inr (sorted_reverse last_modified
                   (map (slot_info self path fs)
                      (filter (\<lambda>cid. isfile fs (slot_path self path cid)) (get_checkpoint_ids self))))"
    using list_checkpoints_fst[of self path fs1] l by (simp add: iso si)
  show ?thesis
  proof (cases "free = []")
    case True
    then show ?thesis
      using free by (simp add: create_checkpoint_id_def g l r Let_def split: list.splits)
  next
    case False
    then show ?thesis
      using free by (simp add: create_checkpoint_id_def g Let_def hd_conv_nth)
  qed
qed

lemma create_checkpoint_written:
  assumes sel: "fst (create_checkpoint_id self path t fs) = Inr slot"
    and src: "files fs (cm_get_os_path contents_mgr path) = Some doc"
  shows "fst (create_checkpoint self contents_mgr path t mtime fs) =
           Inr \<lparr>info_id = slot, last_modified = utcfromtimestamp mtime\<rparr>"
    and "files (snd (create_checkpoint self contents_mgr path t mtime fs)) =
           (files fs)(slot_path self path slot \<mapsto> \<lparr>st_mtime = mtime, content = content doc\<rparr>)"
proof -
  obtain fs1 where c: "create_checkpoint_id self path t fs = (Inr slot, fs1)"
    using sel by (cases "create_checkpoint_id self path t fs") auto
  have f1: "files fs1 = files fs" using create_checkpoint_id_files[of self path t fs] c by simp
  obtain p fs2 where cp: "checkpoint_path self slot path fs1 = (p, fs2)"
    by (cases "checkpoint_path self slot path fs1")
  from checkpoint_path_eq[OF cp] have p: "p = slot_path self path slot" and f2: "files fs2 = files fs1" by auto
  show "fst (create_checkpoint self contents_mgr path t mtime fs) =
           Inr \<lparr>info_id = slot, last_modified = utcfromtimestamp mtime\<rparr>"
    by (simp add: create_checkpoint_def c cp copy_def f1 f2 src checkpoint_model_def)
  show "files (snd (create_checkpoint self contents_mgr path t mtime fs)) =
           (files fs)(slot_path self path slot \<mapsto> \<lparr>st_mtime = mtime, content = content doc\<rparr>)"
    by (simp add: create_checkpoint_def c cp copy_def f1 f2 src checkpoint_model_def p)
qed

lemma create_checkpoint_failed_files:
  assumes "fst (create_checkpoint_id self path t fs) = Inl e \<or> files fs (cm_get_os_path contents_mgr path) = None"
  shows "files (snd (create_checkpoint self contents_mgr path t mtime fs)) = files fs"
proof -
  obtain r fs1 where c: "create_checkpoint_id self path t fs = (r, fs1)"
    by (cases "create_checkpoint_id self path t fs") auto
  have f1: "files fs1 = files fs" using create_checkpoint_id_files[of self path t fs] c by simp
  show ?thesis
  proof (cases r)
    case (Inl e')
    then show ?thesis by (simp add: create_checkpoint_def c f1)
  next
    case (Inr slot)
    obtain p fs2 where cp: "checkpoint_path self slot path fs1 = (p, fs2)"
      by (cases "checkpoint_path self slot path fs1")
    from checkpoint_path_eq[OF cp] have f2: "files fs2 = files fs1" by auto
    from Inr assms c have "files fs (cm_get_os_path contents_mgr path) = None" by simp
    then show ?thesis by (simp add: create_checkpoint_def c Inr cp copy_def f1 f2)
  qed
qed

lemma find_filter_hd: "List.find P xs = (case filter P xs of [] \<Rightarrow> None | x # _ \<Rightarrow> Some x)"
  by (induction xs) auto

lemma create_checkpoint_id_in_pool:
  assumes "fst (create_checkpoint_id self path t fs) = Inr slot"
  shows "slot \<in> set (get_checkpoint_ids self)"
proof -
  let ?pool = "get_checkpoint_ids self"
  let ?free = "filter (\<lambda>cid. \<not> isfile fs (slot_path self path cid)) ?pool"
  let ?recs = "map (slot_info self path fs) (filter (\<lambda>cid. isfile fs (slot_path self path cid)) ?pool)"
  let ?used = "sorted_reverse last_modified ?recs"
  have ids: "info_id r \<in> set ?pool" if "r \<in> set ?used" for r
    using that by (auto simp: set_sorted_reverse slot_info_def)
  show ?thesis
  proof (cases "?free = []")
    case False
    then have "hd ?free \<in> set ?free" by (rule hd_in_set)
    moreover have "slot = hd ?free" using assms False by (simp add: create_checkpoint_id_fst Let_def)
    ultimately show ?thesis by auto
  next
    case True
    show ?thesis
    proof (cases ?used)
      case Nil
      with True assms show ?thesis by (simp add: create_checkpoint_id_fst Let_def)
    next
      case (Cons first rest)
      then have "?used \<noteq> []" by simp
      then have "last ?used \<in> set ?used" by (rule last_in_set)
      moreover have "first \<in> set ?used" using Cons by simp
      ultimately have "first \<in> set ?used" "last ?used \<in> set ?used" by blast+
      with ids have "info_id first \<in> set ?pool" "info_id (last ?used) \<in> set ?pool" by blast+
      with True Cons assms show ?thesis
        by (auto simp add: create_checkpoint_id_fst Let_def simp del: last.simps split: if_splits)
    qed
  qed
qed

subsection \<open>Time differences\<close>

lemma timedelta_abs: "timedelta a b = \<bar>a - b\<bar> div 1000000"
proof -
  have nonneg: "d div 86400000000 * 24 * 60 * 60 + (d mod 86400000000) div 1000000 = d div 1000000" for d :: int
  proof -
    have "d div 1000000 = (d mod 86400000000 + (d div 86400000000) * 86400 * 1000000) div 1000000"
      by simp
    also have "\<dots> = (d mod 86400000000) div 1000000 + (d div 86400000000) * 86400"
      by (subst div_mult_self1) simp_all
    finally show ?thesis by simp
  qed
  have "days (datetime_sub x y) * 24 * 60 * 60 + seconds (datetime_sub x y) = (x - y) div 1000000" for x y
    unfolding datetime_sub_def timedelta_obj.simps by (rule nonneg)
  then show ?thesis
    by (simp add: timedelta_def Let_def abs_if)
qed

lemma timedelta_less: "(timedelta a b < t) = (\<bar>b - a\<bar> < t * 1000000)"
  unfolding timedelta_abs by linarith

subsection \<open>The concrete installation, evaluated\<close>

lemma pool2: "get_checkpoint_ids example_self = [''checkpoint0'', ''checkpoint1'']"
  by code_simp

lemma slot_path_ex: "slot_path example_self ''nb.ipynb'' cid = ''/srv/.ipynb_checkpoints/nb-'' @ cid @ ''.ipynb''"
  by code_simp

lemma src_ex: "cm_get_os_path example_mgr ''nb.ipynb'' = ''/srv/nb.ipynb''"
  by code_simp

lemma cp_path_ex: "fst (checkpoint_path example_self ''checkpoint0'' ''/dir/nb.ipynb/'' fs)
   = ''/srv/dir/.ipynb_checkpoints/nb-checkpoint0.ipynb''"
  unfolding fst_checkpoint_path by code_simp

lemma threshold_ex: "min_seconds_between_checkpoints example_self = 60"
  by (simp add: example_self_def)

lemma create_checkpoint_id_free:
  assumes "\<exists>cid\<in>set (get_checkpoint_ids self). \<not> isfile fs (slot_path self path cid)"
  shows "\<exists>slot. List.find (\<lambda>cid. \<not> isfile fs (slot_path self path cid)) (get_checkpoint_ids self)
                  = Some slot
               \<and> fst (create_checkpoint_id self path t fs) = Inr slot"
proof -
  let ?pool = "get_checkpoint_ids self"
  let ?free = "\<lambda>cid. \<not> isfile fs (slot_path self path cid)"
  from assms have ne: "filter ?free ?pool \<noteq> []" by (auto simp: filter_empty_conv)
  then have "fst (create_checkpoint_id self path t fs) = Inr (hd (filter ?free ?pool))"
    by (simp add: create_checkpoint_id_fst Let_def)
  moreover have "List.find ?free ?pool = Some (hd (filter ?free ?pool))"
    using ne by (simp add: find_filter_hd split: list.splits)
  ultimately show ?thesis by blast
qed

lemma create_checkpoint_id_full:
  fixes self path fs
  defines "pool \<equiv> get_checkpoint_ids self"
  defines "mt \<equiv> \<lambda>cid. last_modified (slot_info self path fs cid)"
  assumes full: "\<forall>cid\<in>set pool. isfile fs (slot_path self path cid)" and ne: "pool \<noteq> []"
  shows "\<exists>cf\<in>set pool. \<exists>cl\<in>set pool.
           mt cf = Max (mt ` set pool) \<and> mt cl = Min (mt ` set pool)
           \<and> fst (create_checkpoint_id self path t fs)
               = (if timedelta (Max (mt ` set pool)) t < min_seconds_between_checkpoints self
                  then Inr cf else Inr cl)"
proof -
  let ?free = "\<lambda>cid. \<not> isfile fs (slot_path self path cid)"
  let ?recs = "map (slot_info self path fs) pool"
  let ?used = "sorted_reverse last_modified ?recs"
  from full have nofree: "filter ?free pool = []" by (auto simp: filter_empty_conv)
  from full have allused: "filter (\<lambda>cid. isfile fs (slot_path self path cid)) pool = pool"
    by (auto simp: filter_id_conv)
  from ne have une: "?used \<noteq> []" by (simp add: sorted_reverse_Nil_iff)
  then obtain first rest where used: "?used = first # rest" by (cases ?used) auto
  have sel: "fst (create_checkpoint_id self path t fs)
               = (if timedelta (last_modified first) t < min_seconds_between_checkpoints self
                  then Inr (info_id first) else Inr (info_id (last ?used)))"
    using nofree allused used
    by (simp add: create_checkpoint_id_fst Let_def pool_def[symmetric] del: last.simps)
  have mem: "r \<in> set ?used \<Longrightarrow> \<exists>c\<in>set pool. r = slot_info self path fs c" for r
    by (auto simp: set_sorted_reverse)
  have "first \<in> set ?used" using used by simp
  with mem obtain cf where cf: "cf \<in> set pool" "first = slot_info self path fs cf" by blast
  have "last ?used \<in> set ?used" using une by (rule last_in_set)
  with mem obtain cl where cl: "cl \<in> set pool" "last ?used = slot_info self path fs cl" by blast
  have idf: "info_id first = cf" and idl: "info_id (last ?used) = cl"
    using cf cl by (simp_all add: slot_info_def)
  have fin: "finite (mt ` set pool)" by simp
  have mx: "mt cf = Max (mt ` set pool)"
  proof (rule Max_eqI[symmetric])
    show "finite (mt ` set pool)" by (rule fin)
    show "mt cf \<in> mt ` set pool" using cf by blast
    fix y assume "y \<in> mt ` set pool"
    then obtain c where c: "c \<in> set pool" "y = mt c" by blast
    then have "slot_info self path fs c \<in> set ?recs" by simp
    from sorted_reverse_hd[OF used this] show "y \<le> mt cf" using c cf by (simp add: mt_def)
  qed
  have mn: "mt cl = Min (mt ` set pool)"
  proof (rule Min_eqI[symmetric])
    show "finite (mt ` set pool)" by (rule fin)
    show "mt cl \<in> mt ` set pool" using cl by blast
    fix y assume "y \<in> mt ` set pool"
    then obtain c where c: "c \<in> set pool" "y = mt c" by blast
    then have "slot_info self path fs c \<in> set ?recs" by simp
    from sorted_reverse_last[OF this, of last_modified] show "mt cl \<le> y"
      using c cl by (simp add: mt_def)
  qed
  have "last_modified first = Max (mt ` set pool)" using mx cf by (simp add: mt_def)
  with sel idf idl have "fst (create_checkpoint_id self path t fs)
               = (if timedelta (Max (mt ` set pool)) t < min_seconds_between_checkpoints self
                  then Inr cf else Inr cl)" by simp
  with cf(1) cl(1) mx mn show ?thesis by blast
qed

subsection \<open>The other operations\<close>

lemma pool5: "get_checkpoint_ids (default_checkpoints resolve) =
         [''checkpoint0'', ''checkpoint1'', ''checkpoint2'', ''checkpoint3'', ''checkpoint4'']"
  by code_simp

lemma delete_checkpoint_eq:
  "delete_checkpoint self cid path fs =
     (if \<not> isfile fs (slot_path self path cid)
      then (Inl (no_such_checkpoint (strip CHR ''/'' path) cid), snd (checkpoint_path self cid path fs))
      else os_unlink (slot_path self path cid) (snd (checkpoint_path self cid path fs)))"
proof -
  obtain p fs1 where cp: "checkpoint_path self cid (strip CHR ''/'' path) fs = (p, fs1)"
    by (cases "checkpoint_path self cid (strip CHR ''/'' path) fs")
  from checkpoint_path_eq[OF cp] have p: "p = slot_path self path cid" and f: "files fs1 = files fs"
    by (simp_all add: slot_path_strip)
  have iso: "isfile fs1 q = isfile fs q" for q by (simp add: isfile_def f)
  have s: "snd (checkpoint_path self cid path fs) = fs1"
    using cp by (simp add: checkpoint_path_strip)
  show ?thesis by (simp add: delete_checkpoint_def Let_def cp p iso s)
qed

lemma rename_checkpoint_eq:
  "rename_checkpoint self cid old_path new_path fs =
     (let fs2 = snd (checkpoint_path self cid new_path (snd (checkpoint_path self cid old_path fs)))
      in if isfile fs (slot_path self old_path cid)
         then shutil_move (slot_path self old_path cid) (slot_path self new_path cid) fs2
         else (Inr (), fs2))"
proof -
  obtain p fs1 where cp: "checkpoint_path self cid old_path fs = (p, fs1)"
    by (cases "checkpoint_path self cid old_path fs")
  obtain q fs2 where cq: "checkpoint_path self cid new_path fs1 = (q, fs2)"
    by (cases "checkpoint_path self cid new_path fs1")
  from checkpoint_path_eq[OF cp] have p: "p = slot_path self old_path cid" and f: "files fs1 = files fs"
    by simp_all
  from checkpoint_path_eq[OF cq] have q: "q = slot_path self new_path cid" and g: "files fs2 = files fs1"
    by simp_all
  have iso: "isfile fs2 r = isfile fs r" for r by (simp add: isfile_def f g)
  show ?thesis by (simp add: rename_checkpoint_def Let_def cp cq p q iso)
qed

lemma rename_scratch_files:
  "files (snd (checkpoint_path self cid new_path (snd (checkpoint_path self cid old_path fs)))) = files fs"
  by (simp add: checkpoint_path_files)

lemma slot1_ex: "files example_fs_full (slot_path example_self ''nb.ipynb'' ''checkpoint1'')
   = Some \<lparr>st_mtime = 5000000, content = ''v1''\<rparr>"
  by (simp add: slot_path_ex example_fs_full_def example_fs_def)

lemma slot_path_ex2: "slot_path example_self ''dir/nb2.ipynb'' cid = ''/srv/dir/.ipynb_checkpoints/nb2-'' @ cid @ ''.ipynb''"
  by code_simp

lemma restore_checkpoint_eq:
  "restore_checkpoint self contents_mgr cid path mtime fs =
     copy (slot_path self path cid) (cm_get_os_path contents_mgr path) mtime
       (snd (checkpoint_path self cid path fs))"
proof -
  obtain p fs1 where cp: "checkpoint_path self cid path fs = (p, fs1)"
    by (cases "checkpoint_path self cid path fs")
  from checkpoint_path_eq[OF cp] have p: "p = slot_path self path cid" by simp
  show ?thesis by (simp add: restore_checkpoint_def Let_def cp p)
qed

lemma get_file_checkpoint_eq:
  "get_file_checkpoint self read_file cid path fs =
     (let fs1 = snd (checkpoint_path self cid path fs) in
      if \<not> isfile fs (slot_path self path cid)
      then (Inl (no_such_checkpoint (strip CHR ''/'' path) cid), fs1)
      else (case read_file (slot_path self path cid) fs1 of
              Inl e \<Rightarrow> (Inl e, fs1)
            | Inr (content', format) \<Rightarrow> (Inr (FileModel content' format), fs1)))"
proof -
  obtain p fs1 where cp: "checkpoint_path self cid (strip CHR ''/'' path) fs = (p, fs1)"
    by (cases "checkpoint_path self cid (strip CHR ''/'' path) fs")
  from checkpoint_path_eq[OF cp] have p: "p = slot_path self path cid" and f: "files fs1 = files fs"
    by (simp_all add: slot_path_strip)
  have iso: "isfile fs1 q = isfile fs q" for q by (simp add: isfile_def f)
  have s: "snd (checkpoint_path self cid path fs) = fs1"
    using cp by (simp add: checkpoint_path_strip)
  show ?thesis by (simp add: get_file_checkpoint_def Let_def cp p iso s)
qed

lemma get_notebook_checkpoint_eq:
  "get_notebook_checkpoint self read_notebook cid path fs =
     (let fs1 = snd (checkpoint_path self cid path fs) in
      if \<not> isfile fs (slot_path self path cid)
      then (Inl (no_such_checkpoint (strip CHR ''/'' path) cid), fs1)
      else (case read_notebook (slot_path self path cid) fs1 of
              Inl e \<Rightarrow> (Inl e, fs1)
            | Inr nb \<Rightarrow> (Inr (NotebookModel nb), fs1)))"
proof -
  obtain p fs1 where cp: "checkpoint_path self cid (strip CHR ''/'' path) fs = (p, fs1)"
    by (cases "checkpoint_path self cid (strip CHR ''/'' path) fs")
  from checkpoint_path_eq[OF cp] have p: "p = slot_path self path cid" and f: "files fs1 = files fs"
    by (simp_all add: slot_path_strip)
  have iso: "isfile fs1 q = isfile fs q" for q by (simp add: isfile_def f)
  have s: "snd (checkpoint_path self cid path fs) = fs1"
    using cp by (simp add: checkpoint_path_strip)
  show ?thesis by (simp add: get_notebook_checkpoint_def Let_def cp p iso s)
qed

lemma format_nat_nonempty: "format_nat n \<noteq> []"
  by (subst format_nat.simps) simp

lemma checkpoint_not_in_pool: "''checkpoint'' \<notin> set (get_checkpoint_ids self)"
proof
  assume "''checkpoint'' \<in> set (get_checkpoint_ids self)"
  then obtain i where "''checkpoint'' = ''checkpoint'' @ format_nat i"
    by (auto simp: get_checkpoint_ids_def)
  then have "format_nat i = []" by simp
  with format_nat_nonempty show False by blast
qed

lemma list_checkpoints_cong:
  assumes "\<And>c. c \<in> set (get_checkpoint_ids self) \<Longrightarrow>
              files fs' (slot_path self path c) = files fs (slot_path self path c)"
  shows "fst (list_checkpoints self path fs') = fst (list_checkpoints self path fs)"
proof -
  let ?pool = "get_checkpoint_ids self"
  have 1: "filter (\<lambda>cid. isfile fs' (slot_path self path cid)) ?pool
         = filter (\<lambda>cid. isfile fs (slot_path self path cid)) ?pool"
    by (rule filter_cong) (simp_all add: isfile_def assms)
  have 2: "map (slot_info self path fs') (filter (\<lambda>cid. isfile fs (slot_path self path cid)) ?pool)
         = map (slot_info self path fs) (filter (\<lambda>cid. isfile fs (slot_path self path cid)) ?pool)"
    by (rule map_cong) (simp_all add: slot_info_def assms)
  show ?thesis by (simp add: list_checkpoints_fst 1 2)
qed

lemma create_file_checkpoint_eq:
  "create_file_checkpoint self content' format path mtime fs =
     (Inr \<lparr>info_id = ''checkpoint'', last_modified = utcfromtimestamp mtime\<rparr>,
      save_file (slot_path self path ''checkpoint'') content' format mtime
        (snd (checkpoint_path self ''checkpoint'' path fs)))"
proof -
  obtain p fs1 where cp: "checkpoint_path self ''checkpoint'' (strip CHR ''/'' path) fs = (p, fs1)"
    by (cases "checkpoint_path self ''checkpoint'' (strip CHR ''/'' path) fs")
  from checkpoint_path_eq[OF cp] have p: "p = slot_path self path ''checkpoint''"
    by (simp_all add: slot_path_strip)
  have s: "snd (checkpoint_path self ''checkpoint'' path fs) = fs1"
    using cp by (simp add: checkpoint_path_strip)
  show ?thesis
    by (simp add: create_file_checkpoint_def Let_def cp p s save_file_def checkpoint_model_def)
qed

lemma create_notebook_checkpoint_eq:
  "create_notebook_checkpoint self nb path mtime fs =
     (Inr \<lparr>info_id = ''checkpoint'', last_modified = utcfromtimestamp mtime\<rparr>,
      save_notebook (slot_path self path ''checkpoint'') nb mtime
        (snd (checkpoint_path self ''checkpoint'' path fs)))"
proof -
  obtain p fs1 where cp: "checkpoint_path self ''checkpoint'' (strip CHR ''/'' path) fs = (p, fs1)"
    by (cases "checkpoint_path self ''checkpoint'' (strip CHR ''/'' path) fs")
  from checkpoint_path_eq[OF cp] have p: "p = slot_path self path ''checkpoint''"
    by (simp_all add: slot_path_strip)
  have s: "snd (checkpoint_path self ''checkpoint'' path fs) = fs1"
    using cp by (simp add: checkpoint_path_strip)
  show ?thesis
    by (simp add: create_notebook_checkpoint_def Let_def cp p s save_notebook_def checkpoint_model_def)
qed

lemma sort_key_map: "sort_key k (map g xs) = map g (sort_key (\<lambda>x. k (g x)) xs)"
proof (induction xs)
  case Nil
  then show ?case by simp
next
  case (Cons x xs)
  have ins: "insort_key k (g x) (map g ys) = map g (insort_key (\<lambda>x. k (g x)) x ys)" for ys
    by (induction ys) simp_all
  show ?case by (simp add: Cons.IH ins)
qed

lemma sorted_reverse_map:
  "sorted_reverse k (map g xs) = map g (sorted_reverse (\<lambda>x. k (g x)) xs)"
  by (simp add: sorted_reverse_def sort_key_map)

lemma list_full_ex:
  "fst (list_checkpoints example_self ''nb.ipynb'' example_fs_full)
     = Inr [\<lparr>info_id = ''checkpoint1'', last_modified = 5000000\<rparr>,
            \<lparr>info_id = ''checkpoint0'', last_modified = 0\<rparr>]"
  by (simp add: list_checkpoints_fst pool2 slot_path_ex isfile_def example_fs_full_def example_fs_def
        slot_info_def utcfromtimestamp_def sorted_reverse_def)

lemma list_tie_ex:
  "fst (list_checkpoints example_self ''nb.ipynb'' example_fs_tie)
     = Inr [\<lparr>info_id = ''checkpoint0'', last_modified = 5000000\<rparr>,
            \<lparr>info_id = ''checkpoint1'', last_modified = 5000000\<rparr>]"
  by (simp add: list_checkpoints_fst pool2 slot_path_ex isfile_def example_fs_tie_def example_fs_def
        slot_info_def utcfromtimestamp_def sorted_reverse_def)

lemma create_checkpoint_step:
  "(case fst (create_checkpoint self contents_mgr path t m fs) of
      Inl e \<Rightarrow> files (snd (create_checkpoint self contents_mgr path t m fs)) = files fs
    | Inr info \<Rightarrow>
        info_id info \<in> set (get_checkpoint_ids self)
        \<and> (\<exists>f. files (snd (create_checkpoint self contents_mgr path t m fs))
                  = (files fs)(slot_path self path (info_id info) \<mapsto> f)))"
proof (cases "fst (create_checkpoint_id self path t fs)")
  case (Inl e)
  then have "fst (create_checkpoint self contents_mgr path t m fs) = Inl e"
    by (cases "create_checkpoint_id self path t fs") (simp add: create_checkpoint_def)
  moreover have "files (snd (create_checkpoint self contents_mgr path t m fs)) = files fs"
  proof (rule create_checkpoint_failed_files)
    show "fst (create_checkpoint_id self path t fs) = Inl e
            \<or> files fs (cm_get_os_path contents_mgr path) = None" using Inl by simp
  qed
  ultimately show ?thesis by simp
next
  case (Inr slot)
  then have pool: "slot \<in> set (get_checkpoint_ids self)" by (rule create_checkpoint_id_in_pool)
  show ?thesis
  proof (cases "files fs (cm_get_os_path contents_mgr path)")
    case None
    obtain fs1 where c: "create_checkpoint_id self path t fs = (Inr slot, fs1)"
      using Inr by (cases "create_checkpoint_id self path t fs") auto
    have f1: "files fs1 = files fs" using create_checkpoint_id_files[of self path t fs] c by simp
    obtain p fs2 where cp: "checkpoint_path self slot path fs1 = (p, fs2)"
      by (cases "checkpoint_path self slot path fs1")
    from checkpoint_path_eq[OF cp] have f2: "files fs2 = files fs1" by auto
    have "fst (create_checkpoint self contents_mgr path t m fs)
            = Inl (FileNotFoundError (cm_get_os_path contents_mgr path))"
      using None by (simp add: create_checkpoint_def c cp copy_def f1 f2)
    moreover have "files (snd (create_checkpoint self contents_mgr path t m fs)) = files fs"
    proof (rule create_checkpoint_failed_files)
      show "fst (create_checkpoint_id self path t fs) = Inl IndexError
              \<or> files fs (cm_get_os_path contents_mgr path) = None" using None by simp
    qed
    ultimately show ?thesis by simp
  next
    case (Some doc)
    from create_checkpoint_written[OF Inr Some, of m] pool show ?thesis by auto
  qed
qed

lemma create_checkpoint_invariant:
  assumes inv: "\<And>cid. isfile fs (slot_path self path cid) \<Longrightarrow> cid \<in> set (get_checkpoint_ids self)"
    and ex: "isfile (snd (create_checkpoint self contents_mgr path t m fs)) (slot_path self path cid)"
  shows "cid \<in> set (get_checkpoint_ids self)"
proof (cases "fst (create_checkpoint self contents_mgr path t m fs)")
  case (Inl e)
  with create_checkpoint_step[of self contents_mgr path t m fs]
  have "files (snd (create_checkpoint self contents_mgr path t m fs)) = files fs" by simp
  with ex have "isfile fs (slot_path self path cid)" by (simp add: isfile_def)
  then show ?thesis by (rule inv)
next
  case (Inr info)
  with create_checkpoint_step[of self contents_mgr path t m fs]
  obtain f where pool: "info_id info \<in> set (get_checkpoint_ids self)"
    and f: "files (snd (create_checkpoint self contents_mgr path t m fs))
              = (files fs)(slot_path self path (info_id info) \<mapsto> f)" by auto
  show ?thesis
  proof (cases "slot_path self path cid = slot_path self path (info_id info)")
    case True
    then have "cid = info_id info" by (rule slot_path_inject)
    with pool show ?thesis by simp
  next
    case False
    with ex f have "isfile fs (slot_path self path cid)" by (simp add: isfile_def)
    then show ?thesis by (rule inv)
  qed
qed

lemma create_checkpoints_invariant:
  assumes "\<And>cid. isfile fs (slot_path self path cid) \<Longrightarrow> cid \<in> set (get_checkpoint_ids self)"
    and "isfile (create_checkpoints self contents_mgr path calls fs) (slot_path self path cid)"
  shows "cid \<in> set (get_checkpoint_ids self)"
  using assms
proof (induction calls arbitrary: fs)
  case Nil
  then show ?case by simp
next
  case (Cons call calls)
  obtain t m where call: "call = (t, m)" by (cases call)
  let ?fs1 = "snd (create_checkpoint self contents_mgr path t m fs)"
  have inv1: "c \<in> set (get_checkpoint_ids self)" if "isfile ?fs1 (slot_path self path c)" for c
    using Cons.prems(1) that by (rule create_checkpoint_invariant)
  from Cons.prems(2) have "isfile (create_checkpoints self contents_mgr path calls ?fs1)
                             (slot_path self path cid)" by (simp add: call)
  with inv1 show ?case by (rule Cons.IH)
qed

lemma length_get_checkpoint_ids: "length (get_checkpoint_ids self) = nat (max_checkpoints self)"
  by (simp add: get_checkpoint_ids_def)

lemma scenario_ex:
  "fst (list_checkpoints example_self ''nb.ipynb''
         (create_checkpoints example_self example_mgr ''nb.ipynb'' example_calls example_fs_free))
     = Inr [\<lparr>info_id = ''checkpoint0'', last_modified = 1000000000\<rparr>,
            \<lparr>info_id = ''checkpoint1'', last_modified = 10000000\<rparr>]"
  by code_simp

lemma no_checkpoints_ex:
  "\<not> isfile example_fs_free (fst (checkpoint_path example_self cid ''nb.ipynb'' example_fs_free))"
  by (simp add: fst_checkpoint_path slot_path_ex isfile_def example_fs_free_def example_fs_def)

section \<open>Slot selection on create\<close>

text \<open>
  Claim C1. Let the live document exist, so that the copy succeeds. If some slot of the
  pool \<open>checkpoint0 .. checkpoint{N-1}\<close> has no checkpoint file for the path,
  \<open>create_checkpoint\<close> writes the checkpoint to the first such slot in pool order.
  Otherwise, when the pool is full (and not empty), let \<open>newest\<close> be the latest
  modification time among the existing checkpoints: if the time between \<open>newest\<close> and
  the current time is below \<open>min_seconds_between_checkpoints\<close>, the slot written is one
  whose checkpoint has the modification time \<open>newest\<close>; otherwise it is one whose
  checkpoint has the earliest modification time. Times are in microseconds, so the
  threshold in seconds is scaled by 1000000. In each case the info dict returned names
  the slot, and the only change to the files is the checkpoint file of that slot, which
  receives the content of the document. (With an empty pool, \<open>max_checkpoints \<le> 0\<close>,
  there is no most recent checkpoint and line 101 raises \<open>IndexError\<close>.)
\<close>

theorem create_checkpoint_slot_policy:
  assumes src: "files fs (cm_get_os_path contents_mgr path) = Some doc"
  shows
    "let res = fst (create_checkpoint self contents_mgr path cur_time mtime fs);
         fs' = snd (create_checkpoint self contents_mgr path cur_time mtime fs);
         pool = get_checkpoint_ids self;
         free = (\<lambda>cid. \<not> isfile fs (slot_path self path cid));
         mt = (\<lambda>cid. last_modified (slot_info self path fs cid));
         written = (\<lambda>slot. res = Inr \<lparr>info_id = slot, last_modified = utcfromtimestamp mtime\<rparr>
                      \<and> files fs' = (files fs)(slot_path self path slot \<mapsto>
                                        \<lparr>st_mtime = mtime, content = content doc\<rparr>))
     in ((\<exists>cid\<in>set pool. free cid) \<longrightarrow> (\<exists>slot. List.find free pool = Some slot \<and> written slot))
      \<and> ((\<forall>cid\<in>set pool. \<not> free cid) \<and> pool \<noteq> [] \<longrightarrow>
           (let newest = Max (mt ` set pool); oldest = Min (mt ` set pool)
            in if \<bar>cur_time - newest\<bar> < min_seconds_between_checkpoints self * 1000000
               then \<exists>slot\<in>set pool. mt slot = newest \<and> written slot
               else \<exists>slot\<in>set pool. mt slot = oldest \<and> written slot))"
proof -
  let ?pool = "get_checkpoint_ids self"
  let ?free = "\<lambda>cid. \<not> isfile fs (slot_path self path cid)"
  let ?mt = "\<lambda>cid. last_modified (slot_info self path fs cid)"
  let ?c = "create_checkpoint self contents_mgr path cur_time mtime fs"
  let ?written = "\<lambda>slot. fst ?c = Inr \<lparr>info_id = slot, last_modified = utcfromtimestamp mtime\<rparr>
                      \<and> files (snd ?c) = (files fs)(slot_path self path slot \<mapsto>
                                        \<lparr>st_mtime = mtime, content = content doc\<rparr>)"
  let ?sel = "fst (create_checkpoint_id self path cur_time fs)"
  have wr: "?written slot" if "?sel = Inr slot" for slot
    using create_checkpoint_written[OF that src] by simp
  have A: "\<exists>slot. List.find ?free ?pool = Some slot \<and> ?written slot" if "\<exists>cid\<in>set ?pool. ?free cid"
    using create_checkpoint_id_free[OF that, of cur_time] wr by blast
  have B: "if \<bar>cur_time - Max (?mt ` set ?pool)\<bar> < min_seconds_between_checkpoints self * 1000000
           then \<exists>slot\<in>set ?pool. ?mt slot = Max (?mt ` set ?pool) \<and> ?written slot
           else \<exists>slot\<in>set ?pool. ?mt slot = Min (?mt ` set ?pool) \<and> ?written slot"
    if full: "\<forall>cid\<in>set ?pool. \<not> ?free cid" and ne: "?pool \<noteq> []"
  proof -
    from full have "\<forall>cid\<in>set ?pool. isfile fs (slot_path self path cid)" by simp
    from create_checkpoint_id_full[OF this ne, of cur_time]
    obtain cf cl where cf: "cf \<in> set ?pool" "?mt cf = Max (?mt ` set ?pool)"
      and cl: "cl \<in> set ?pool" "?mt cl = Min (?mt ` set ?pool)"
      and sel: "?sel = (if timedelta (Max (?mt ` set ?pool)) cur_time
                             < min_seconds_between_checkpoints self
                        then Inr cf else Inr cl)"
      by blast
    show ?thesis
    proof (cases "\<bar>cur_time - Max (?mt ` set ?pool)\<bar> < min_seconds_between_checkpoints self * 1000000")
      case True
      with sel have "?sel = Inr cf" by (simp add: timedelta_less)
      then have "?written cf" by (rule wr)
      with True cf show ?thesis by auto
    next
      case False
      with sel have "?sel = Inr cl" by (simp add: timedelta_less)
      then have "?written cl" by (rule wr)
      with False cl show ?thesis by auto
    qed
  qed
  show ?thesis
    using A B by (simp add: Let_def split: if_splits)
qed

theorem create_checkpoint_slot_policy_witness:
  "files example_fs_free (cm_get_os_path example_mgr ''nb.ipynb'') = Some example_doc
   \<and> fst (create_checkpoint example_self example_mgr ''nb.ipynb'' 0 0 example_fs_free)
       = Inr \<lparr>info_id = ''checkpoint0'', last_modified = 0\<rparr>
   \<and> files example_fs_full (cm_get_os_path example_mgr ''nb.ipynb'') = Some example_doc
   \<and> fst (create_checkpoint example_self example_mgr ''nb.ipynb'' 10000000 10000000 example_fs_full)
       = Inr \<lparr>info_id = ''checkpoint1'', last_modified = 10000000\<rparr>
   \<and> fst (create_checkpoint example_self example_mgr ''nb.ipynb'' 1000000000 1000000000 example_fs_full)
       = Inr \<lparr>info_id = ''checkpoint0'', last_modified = 1000000000\<rparr>"
proof -
  have a: "files example_fs_free (cm_get_os_path example_mgr ''nb.ipynb'') = Some example_doc"
    by (simp add: src_ex example_fs_free_def example_fs_def)
  have b: "files example_fs_full (cm_get_os_path example_mgr ''nb.ipynb'') = Some example_doc"
    by (simp add: src_ex example_fs_full_def example_fs_def)
  have ev: "min_seconds_between_checkpoints example_self = 60" by (simp add: example_self_def)
  show ?thesis
    using create_checkpoint_slot_policy[OF a, of example_self 0 0]
      create_checkpoint_slot_policy[OF b, of example_self 10000000 10000000]
      create_checkpoint_slot_policy[OF b, of example_self 1000000000 1000000000]
    by (auto simp add: a b pool2 slot_path_ex isfile_def example_fs_free_def example_fs_full_def example_fs_def slot_info_def
          utcfromtimestamp_def ev Let_def src_ex)
qed

section \<open>The time difference used for debouncing\<close>

text \<open>
  Claim C10. \<open>timedelta\<close> is symmetric and equals the absolute difference of the two
  timestamps in whole seconds: the microseconds below a second are discarded. So in
  \<open>create_checkpoint\<close> on a full pool, with the live document present, the slot of a most
  recent checkpoint is reused whenever the absolute difference between its modification
  time and the clock, truncated to whole seconds, is below
  \<open>min_seconds_between_checkpoints\<close>; this holds also when that modification time lies
  ahead of the clock.
\<close>

theorem timedelta_symmetric_whole_seconds:
  "timedelta a b = timedelta b a
   \<and> timedelta a b = \<bar>a - b\<bar> div 1000000
   \<and> (let pool = get_checkpoint_ids self;
           mt = (\<lambda>cid. last_modified (slot_info self path fs cid));
           newest = Max (mt ` set pool);
           res = fst (create_checkpoint self contents_mgr path cur_time mtime fs)
       in (\<forall>cid\<in>set pool. isfile fs (slot_path self path cid)) \<and> pool \<noteq> []
          \<and> isfile fs (cm_get_os_path contents_mgr path)
          \<and> \<bar>newest - cur_time\<bar> div 1000000 < min_seconds_between_checkpoints self
          \<longrightarrow> (\<exists>slot\<in>set pool. mt slot = newest
                 \<and> res = Inr \<lparr>info_id = slot, last_modified = utcfromtimestamp mtime\<rparr>))"
proof -
  let ?pool = "get_checkpoint_ids self"
  let ?mt = "\<lambda>cid. last_modified (slot_info self path fs cid)"
  have sym: "timedelta a b = timedelta b a" by (simp add: timedelta_abs abs_minus_commute)
  have C: "\<exists>slot\<in>set ?pool. ?mt slot = Max (?mt ` set ?pool)
             \<and> fst (create_checkpoint self contents_mgr path cur_time mtime fs)
                 = Inr \<lparr>info_id = slot, last_modified = utcfromtimestamp mtime\<rparr>"
    if full: "\<forall>cid\<in>set ?pool. isfile fs (slot_path self path cid)" and ne: "?pool \<noteq> []"
      and src: "isfile fs (cm_get_os_path contents_mgr path)"
      and near: "\<bar>Max (?mt ` set ?pool) - cur_time\<bar> div 1000000 < min_seconds_between_checkpoints self"
  proof -
    from src obtain doc where doc: "files fs (cm_get_os_path contents_mgr path) = Some doc"
      by (auto simp: isfile_def)
    from create_checkpoint_id_full[OF full ne, of cur_time]
    obtain cf cl where cf: "cf \<in> set ?pool" "?mt cf = Max (?mt ` set ?pool)"
      and sel: "fst (create_checkpoint_id self path cur_time fs)
                  = (if timedelta (Max (?mt ` set ?pool)) cur_time
                             < min_seconds_between_checkpoints self
                        then Inr cf else Inr cl)"
      by blast
    from sel near have "fst (create_checkpoint_id self path cur_time fs) = Inr cf"
      by (simp add: timedelta_abs)
    from create_checkpoint_written(1)[OF this doc] cf show ?thesis by blast
  qed
  show ?thesis
    using sym timedelta_abs[of a b] C by (simp add: Let_def)
qed

theorem timedelta_symmetric_whole_seconds_witness:
  "timedelta 65999999 6000000 = 59 \<and> timedelta 6000000 65999999 = 59
   \<and> isfile example_fs_ahead (cm_get_os_path example_mgr ''nb.ipynb'')
   \<and> fst (create_checkpoint example_self example_mgr ''nb.ipynb'' 6000000 6000000 example_fs_ahead)
       = Inr \<lparr>info_id = ''checkpoint1'', last_modified = 6000000\<rparr>"
  using timedelta_symmetric_whole_seconds[of 65999999 6000000 example_self "''nb.ipynb''"
          example_fs_ahead example_mgr 6000000 6000000]
  by (auto simp add: pool2 slot_path_ex isfile_def example_fs_ahead_def example_fs_def slot_info_def
        utcfromtimestamp_def threshold_ex Let_def src_ex)

section \<open>The checkpoint file name\<close>

text \<open>
  Claim C9. For every document path and slot id, the path returned by \<open>checkpoint_path\<close>
  is the one the specification describes: the document path is normalised, split at its
  last separator into parent directory and file name (the file name contains no
  separator), the file name is split into base name and extension (which concatenate to
  the file name), and the result joins the directory of the parent, the configured
  checkpoint directory and the file name \<open>{base}-{slot_id}{extension}\<close> with
  \<open>os.path.join\<close>. When the configured checkpoint directory is a relative path, the
  result lies below the directory of the parent.
\<close>

theorem checkpoint_path_naming:
  "let p = strip CHR ''/'' path;
       parent = strip CHR ''/'' (spec_parent p);
       name = spec_name p;
       base = spec_base name;
       ext = spec_extension name;
       cp_path = fst (checkpoint_path self slot_id path fs)
   in cp_path = checkpoint_path_spec self slot_id path
    \<and> cp_path = os_path_join (os_path_join (get_os_path self parent) (checkpoint_dir self))
                  (base @ ''-'' @ slot_id @ ext)
    \<and> base @ ext = name
    \<and> CHR ''/'' \<notin> set name
    \<and> (CHR ''/'' \<in> set p \<longrightarrow> p = spec_parent p @ ''/'' @ name)
    \<and> (CHR ''/'' \<notin> set p \<longrightarrow> spec_parent p = [] \<and> name = p)
    \<and> (take 1 (checkpoint_dir self) \<noteq> ''/'' \<longrightarrow>
         (\<exists>sep1 sep2. (sep1 = [] \<or> sep1 = ''/'') \<and> (sep2 = [] \<or> sep2 = ''/'')
            \<and> cp_path = get_os_path self parent @ sep1 @ checkpoint_dir self @ sep2
                          @ base @ ''-'' @ slot_id @ ext))"
proof -
  let ?p = "strip CHR ''/'' path"
  let ?parent = "strip CHR ''/'' (spec_parent ?p)"
  let ?name = "spec_name ?p"
  let ?file = "spec_base ?name @ ''-'' @ slot_id @ spec_extension ?name"
  have eq: "fst (checkpoint_path self slot_id path fs) = checkpoint_path_spec self slot_id path"
    by (simp add: fst_checkpoint_path slot_path_spec)
  have rel: "\<exists>sep1 sep2. (sep1 = [] \<or> sep1 = ''/'') \<and> (sep2 = [] \<or> sep2 = ''/'')
            \<and> checkpoint_path_spec self slot_id path
                = get_os_path self ?parent @ sep1 @ checkpoint_dir self @ sep2 @ ?file"
    if "take 1 (checkpoint_dir self) \<noteq> ''/''"
  proof -
    have "\<exists>sep. (sep = [] \<or> sep = ''/'')
            \<and> os_path_join (get_os_path self ?parent) (checkpoint_dir self)
                = get_os_path self ?parent @ sep @ checkpoint_dir self"
      using that by (rule os_path_join_relative)
    then obtain sep1 where s1: "sep1 = [] \<or> sep1 = ''/''"
      "os_path_join (get_os_path self ?parent) (checkpoint_dir self)
         = get_os_path self ?parent @ sep1 @ checkpoint_dir self" by blast
    have nf: "take 1 ?file \<noteq> ''/''"
      by (rule filename_relative[OF spec_name_no_slash])
    have "\<exists>sep. (sep = [] \<or> sep = ''/'')
            \<and> os_path_join (get_os_path self ?parent @ sep1 @ checkpoint_dir self) ?file
                = (get_os_path self ?parent @ sep1 @ checkpoint_dir self) @ sep @ ?file"
      using nf by (rule os_path_join_relative)
    then obtain sep2 where s2: "sep2 = [] \<or> sep2 = ''/''"
      "os_path_join (get_os_path self ?parent @ sep1 @ checkpoint_dir self) ?file
         = (get_os_path self ?parent @ sep1 @ checkpoint_dir self) @ sep2 @ ?file" by blast
    have "checkpoint_path_spec self slot_id path
            = get_os_path self ?parent @ sep1 @ checkpoint_dir self @ sep2 @ ?file"
      unfolding checkpoint_path_spec_def Let_def s1(2) s2(2) by simp
    with s1(1) s2(1) show ?thesis by blast
  qed
  have def: "checkpoint_path_spec self slot_id path
               = os_path_join (os_path_join (get_os_path self ?parent) (checkpoint_dir self)) ?file"
    by (simp add: checkpoint_path_spec_def Let_def)
  show ?thesis
    unfolding Let_def eq
  proof (intro conjI impI)
    show "checkpoint_path_spec self slot_id path = checkpoint_path_spec self slot_id path" ..
    show "checkpoint_path_spec self slot_id path
            = os_path_join (os_path_join (get_os_path self ?parent) (checkpoint_dir self)) ?file"
      by (rule def)
    show "spec_base ?name @ spec_extension ?name = ?name" by (rule spec_base_ext)
    show "CHR ''/'' \<notin> set ?name" by (rule spec_name_no_slash)
    show "?p = spec_parent ?p @ ''/'' @ ?name" if "CHR ''/'' \<in> set ?p"
      using that by (rule spec_path_split(1))
    show "spec_parent ?p = []" if "CHR ''/'' \<notin> set ?p"
      using spec_path_split(2)[OF that] by blast
    show "?name = ?p" if "CHR ''/'' \<notin> set ?p"
      using spec_path_split(2)[OF that] by blast
    show "\<exists>sep1 sep2. (sep1 = [] \<or> sep1 = ''/'') \<and> (sep2 = [] \<or> sep2 = ''/'')
            \<and> checkpoint_path_spec self slot_id path
                = get_os_path self ?parent @ sep1 @ checkpoint_dir self @ sep2 @ ?file"
      if "take 1 (checkpoint_dir self) \<noteq> ''/''"
      using that by (rule rel)
  qed
qed

theorem checkpoint_path_naming_witness:
  "strip CHR ''/'' ''/dir/nb.ipynb/'' = ''dir/nb.ipynb''
   \<and> spec_parent ''dir/nb.ipynb'' = ''dir'' \<and> spec_name ''dir/nb.ipynb'' = ''nb.ipynb''
   \<and> spec_base ''nb.ipynb'' = ''nb'' \<and> spec_extension ''nb.ipynb'' = ''.ipynb''
   \<and> take 1 (checkpoint_dir example_self) \<noteq> ''/''
   \<and> checkpoint_path_spec example_self ''checkpoint0'' ''/dir/nb.ipynb/''
       = ''/srv/dir/.ipynb_checkpoints/nb-checkpoint0.ipynb''"
proof -
  have a: "strip CHR ''/'' ''/dir/nb.ipynb/'' = ''dir/nb.ipynb''" by code_simp
  have b: "spec_parent ''dir/nb.ipynb'' = ''dir''" "spec_name ''dir/nb.ipynb'' = ''nb.ipynb''"
    "spec_base ''nb.ipynb'' = ''nb''" "spec_extension ''nb.ipynb'' = ''.ipynb''" by code_simp+
  have c: "take 1 (checkpoint_dir example_self) \<noteq> ''/''" by (simp add: example_self_def)
  show ?thesis
    using checkpoint_path_naming[of "''/dir/nb.ipynb/''" example_self "''checkpoint0''" fs] c
    by (simp add: a b Let_def cp_path_ex)
qed

section \<open>Configuration defaults\<close>

text \<open>
  Claim C5, as the specification states it, gives the default checkpoint directory name
  as \<open>.checkpoints\<close>. The trait default of line 33 is \<open>.ipynb_checkpoints\<close>.
\<close>

theorem default_checkpoint_dir_counterexample:
  "checkpoint_dir (default_checkpoints id) \<noteq> ''.checkpoints''"
  by (simp add: default_checkpoints_def)

text \<open>
  Claim C5, amended. The configuration defaults are: checkpoint directory name
  \<open>.ipynb_checkpoints\<close>, maximum pool size 5 (so the pool is \<open>checkpoint0 .. checkpoint4\<close>)
  and debounce threshold 60 seconds; each is a field of the configurable object and can
  be overridden.
\<close>

theorem default_configuration:
  "checkpoint_dir (default_checkpoints resolve) = ''.ipynb_checkpoints''
   \<and> max_checkpoints (default_checkpoints resolve) = 5
   \<and> min_seconds_between_checkpoints (default_checkpoints resolve) = 60
   \<and> get_checkpoint_ids (default_checkpoints resolve) =
         [''checkpoint0'', ''checkpoint1'', ''checkpoint2'', ''checkpoint3'', ''checkpoint4'']
   \<and> checkpoint_dir ((default_checkpoints resolve)\<lparr>checkpoint_dir := d\<rparr>) = d
   \<and> max_checkpoints ((default_checkpoints resolve)\<lparr>max_checkpoints := n\<rparr>) = n
   \<and> min_seconds_between_checkpoints
        ((default_checkpoints resolve)\<lparr>min_seconds_between_checkpoints := s\<rparr>) = s"
  by (simp add: pool5) (simp add: default_checkpoints_def)

section \<open>Restore and retrieve\<close>

text \<open>
  Claim C6. \<open>restore_checkpoint\<close> makes no existence check: its outcome is the outcome of
  the copy from the checkpoint file to the live document, it never raises an \<open>HTTPError\<close>
  (so never the 404 of \<open>no_such_checkpoint\<close>), and restoring a missing checkpoint raises
  the failure of the copy. \<open>get_file_checkpoint\<close> and \<open>get_notebook_checkpoint\<close> raise the
  404 \<open>Checkpoint does not exist\<close> error when the checkpoint file is absent, whatever the
  reader would do; when the file exists they return what the reader returns.
\<close>

theorem restore_unchecked_retrieve_checked:
  "let cp_path = fst (checkpoint_path self checkpoint_id path fs);
       fs1 = snd (checkpoint_path self checkpoint_id path fs);
       not_found = HTTPError 404 (''Checkpoint does not exist: '' @ strip CHR ''/'' path
                                    @ ''@'' @ checkpoint_id)
   in restore_checkpoint self contents_mgr checkpoint_id path mtime fs
        = copy cp_path (cm_get_os_path contents_mgr path) mtime fs1
    \<and> fst (restore_checkpoint self contents_mgr checkpoint_id path mtime fs) \<noteq> Inl (HTTPError code msg)
    \<and> (\<not> isfile fs cp_path \<longrightarrow>
          fst (restore_checkpoint self contents_mgr checkpoint_id path mtime fs)
            = Inl (FileNotFoundError cp_path)
          \<and> fst (get_file_checkpoint self read_file checkpoint_id path fs) = Inl not_found
          \<and> fst (get_notebook_checkpoint self read_notebook checkpoint_id path fs) = Inl not_found)
    \<and> (isfile fs cp_path \<longrightarrow>
          fst (restore_checkpoint self contents_mgr checkpoint_id path mtime fs) = Inr ()
          \<and> fst (get_file_checkpoint self read_file checkpoint_id path fs)
              = map_sum id (\<lambda>(c, f). FileModel c f) (read_file cp_path fs1)
          \<and> fst (get_notebook_checkpoint self read_notebook checkpoint_id path fs)
              = map_sum id NotebookModel (read_notebook cp_path fs1))"
proof -
  let ?p = "slot_path self path checkpoint_id"
  let ?fs1 = "snd (checkpoint_path self checkpoint_id path fs)"
  have f: "files ?fs1 = files fs" by (rule checkpoint_path_files)
  have nohttp: "fst (copy a b mtime ?fs1) \<noteq> Inl (HTTPError code msg)" for a b
    by (simp add: copy_def split: option.splits)
  show ?thesis
  proof (cases "isfile fs ?p")
    case True
    then obtain x where x: "files fs ?p = Some x" by (auto simp: isfile_def)
    show ?thesis
      using True x nohttp
      by (simp add: Let_def fst_checkpoint_path restore_checkpoint_eq get_file_checkpoint_eq
            get_notebook_checkpoint_eq copy_def f split: sum.splits prod.splits)
  next
    case False
    then have x: "files fs ?p = None" by (auto simp: isfile_def)
    show ?thesis
      using False x nohttp
      by (simp add: Let_def fst_checkpoint_path restore_checkpoint_eq get_file_checkpoint_eq
            get_notebook_checkpoint_eq copy_def f no_such_checkpoint_def)
  qed
qed

theorem restore_unchecked_retrieve_checked_witness:
  "\<not> isfile example_fs_free (fst (checkpoint_path example_self ''checkpoint1'' ''nb.ipynb'' example_fs_free))
   \<and> fst (restore_checkpoint example_self example_mgr ''checkpoint1'' ''nb.ipynb'' 7000000 example_fs_free)
       = Inl (FileNotFoundError ''/srv/.ipynb_checkpoints/nb-checkpoint1.ipynb'')
   \<and> fst (get_file_checkpoint example_self example_read_file ''checkpoint1'' ''nb.ipynb'' example_fs_free)
       = Inl (HTTPError 404 ''Checkpoint does not exist: nb.ipynb@checkpoint1'')
   \<and> fst (get_notebook_checkpoint example_self example_read_notebook ''checkpoint1'' ''nb.ipynb''
            example_fs_free)
       = Inl (HTTPError 404 ''Checkpoint does not exist: nb.ipynb@checkpoint1'')
   \<and> isfile example_fs_full (fst (checkpoint_path example_self ''checkpoint1'' ''nb.ipynb'' example_fs_full))
   \<and> fst (restore_checkpoint example_self example_mgr ''checkpoint1'' ''nb.ipynb'' 7000000 example_fs_full)
       = Inr ()
   \<and> fst (get_file_checkpoint example_self example_read_file ''checkpoint1'' ''nb.ipynb'' example_fs_full)
       = Inr (FileModel ''v1'' ''text'')
   \<and> fst (get_notebook_checkpoint example_self example_read_notebook ''checkpoint1'' ''nb.ipynb''
            example_fs_full)
       = Inr (NotebookModel ''v1'')"
proof -
  have s: "strip CHR ''/'' ''nb.ipynb'' = ''nb.ipynb''" by code_simp
  have a: "\<not> isfile example_fs_free (slot_path example_self ''nb.ipynb'' ''checkpoint1'')"
    by (simp add: slot_path_ex isfile_def example_fs_free_def example_fs_def)
  have b: "isfile example_fs_full (slot_path example_self ''nb.ipynb'' ''checkpoint1'')"
    by (simp add: isfile_def slot1_ex)
  have r: "example_read_file (slot_path example_self ''nb.ipynb'' ''checkpoint1'')
             (snd (checkpoint_path example_self ''checkpoint1'' ''nb.ipynb'' example_fs_full))
           = Inr (''v1'', ''text'')"
    "example_read_notebook (slot_path example_self ''nb.ipynb'' ''checkpoint1'')
             (snd (checkpoint_path example_self ''checkpoint1'' ''nb.ipynb'' example_fs_full))
           = Inr ''v1''"
    by (simp_all add: example_read_file_def example_read_notebook_def checkpoint_path_files slot1_ex)
  show ?thesis
    using restore_unchecked_retrieve_checked[of example_self "''checkpoint1''" "''nb.ipynb''"
            example_fs_free example_mgr 7000000 404 "[]" example_read_file example_read_notebook,
            unfolded Let_def, THEN conjunct2]
      restore_unchecked_retrieve_checked[of example_self "''checkpoint1''" "''nb.ipynb''"
            example_fs_full example_mgr 7000000 404 "[]" example_read_file example_read_notebook,
            unfolded Let_def, THEN conjunct2]
    by (simp add: Let_def fst_checkpoint_path a b r s) (simp add: slot_path_ex)
qed

section \<open>Delete\<close>

text \<open>
  Claim C7. \<open>delete_checkpoint\<close> raises the 404 error \<open>Checkpoint does not exist:
  path@checkpoint_id\<close>, with the normalised path and the slot id, if and only if no
  checkpoint file exists at the resolved location, and then leaves the files as they are;
  when the file exists the call returns and removes exactly that file.
\<close>

theorem delete_checkpoint_not_found_iff:
  "let cp_path = fst (checkpoint_path self checkpoint_id path fs);
       res = fst (delete_checkpoint self checkpoint_id path fs);
       fs' = snd (delete_checkpoint self checkpoint_id path fs);
       not_found = HTTPError 404 (''Checkpoint does not exist: '' @ strip CHR ''/'' path
                                    @ ''@'' @ checkpoint_id)
   in (res = Inl not_found \<longleftrightarrow> \<not> isfile fs cp_path)
    \<and> (\<not> isfile fs cp_path \<longrightarrow> files fs' = files fs)
    \<and> (isfile fs cp_path \<longrightarrow> res = Inr () \<and> files fs' = (files fs)(cp_path := None))"
proof -
  let ?p = "slot_path self path checkpoint_id"
  let ?fs1 = "snd (checkpoint_path self checkpoint_id path fs)"
  have f: "files ?fs1 = files fs" by (rule checkpoint_path_files)
  show ?thesis
  proof (cases "isfile fs ?p")
    case True
    then obtain x where x: "files fs ?p = Some x" by (auto simp: isfile_def)
    show ?thesis
      using True x
      by (simp add: Let_def fst_checkpoint_path delete_checkpoint_eq os_unlink_def f)
  next
    case False
    then show ?thesis
      by (simp add: Let_def fst_checkpoint_path delete_checkpoint_eq f no_such_checkpoint_def)
  qed
qed

theorem delete_checkpoint_not_found_iff_witness:
  "\<not> isfile example_fs_free (fst (checkpoint_path example_self ''checkpoint1'' ''/nb.ipynb'' example_fs_free))
   \<and> fst (delete_checkpoint example_self ''checkpoint1'' ''/nb.ipynb'' example_fs_free)
       = Inl (HTTPError 404 ''Checkpoint does not exist: nb.ipynb@checkpoint1'')
   \<and> isfile example_fs_full (fst (checkpoint_path example_self ''checkpoint1'' ''nb.ipynb'' example_fs_full))
   \<and> fst (delete_checkpoint example_self ''checkpoint1'' ''nb.ipynb'' example_fs_full) = Inr ()
   \<and> files (snd (delete_checkpoint example_self ''checkpoint1'' ''nb.ipynb'' example_fs_full))
       = (files example_fs_full)(''/srv/.ipynb_checkpoints/nb-checkpoint1.ipynb'' := None)"
proof -
  have s: "strip CHR ''/'' ''/nb.ipynb'' = ''nb.ipynb''" by code_simp
  have p: "slot_path example_self ''/nb.ipynb'' cid = slot_path example_self ''nb.ipynb'' cid" for cid
    using slot_path_strip[of example_self "''/nb.ipynb''" cid] by (simp only: s)
  show ?thesis
    using delete_checkpoint_not_found_iff[of example_self "''checkpoint1''" "''/nb.ipynb''" example_fs_free]
      delete_checkpoint_not_found_iff[of example_self "''checkpoint1''" "''nb.ipynb''" example_fs_full]
    by (simp add: Let_def fst_checkpoint_path p s slot_path_ex isfile_def
          slot1_ex[unfolded slot_path_ex, simplified] example_fs_free_def example_fs_def)
qed

section \<open>Rename\<close>

text \<open>
  Claim C8, as stated, says that after renaming an existing checkpoint no file is left at
  the old location. When the old and the new path resolve to the same location (here the
  same path twice) the file is still there.
\<close>

theorem rename_checkpoint_same_location_counterexample:
  "isfile example_fs_full (fst (checkpoint_path example_self ''checkpoint1'' ''nb.ipynb'' example_fs_full))
   \<and> isfile (snd (rename_checkpoint example_self ''checkpoint1'' ''nb.ipynb'' ''nb.ipynb''
                    example_fs_full))
        (fst (checkpoint_path example_self ''checkpoint1'' ''nb.ipynb'' example_fs_full))"
  by (simp add: fst_checkpoint_path rename_checkpoint_eq Let_def shutil_move_def isfile_def
        rename_scratch_files slot1_ex)

text \<open>
  Claim C8, amended. \<open>rename_checkpoint\<close> raises no error. If a checkpoint file exists at
  the location resolved from the old path, it is moved to the location resolved from the
  new path for the same slot id: afterwards that file is at the new location and, when
  the two locations differ, no file is at the old one (when they coincide the file stays
  in place). If no file exists at the old location, the files are left as they are.
\<close>

theorem rename_checkpoint_moves:
  "let old_cp = fst (checkpoint_path self checkpoint_id old_path fs);
       new_cp = fst (checkpoint_path self checkpoint_id new_path fs);
       res = fst (rename_checkpoint self checkpoint_id old_path new_path fs);
       fs' = snd (rename_checkpoint self checkpoint_id old_path new_path fs)
   in res = Inr ()
    \<and> (isfile fs old_cp \<longrightarrow>
          files fs' = ((files fs)(old_cp := None))(new_cp := files fs old_cp)
          \<and> isfile fs' new_cp
          \<and> (old_cp \<noteq> new_cp \<longrightarrow> \<not> isfile fs' old_cp))
    \<and> (\<not> isfile fs old_cp \<longrightarrow> files fs' = files fs)"
proof (cases "isfile fs (slot_path self old_path checkpoint_id)")
  case True
  then obtain x where x: "files fs (slot_path self old_path checkpoint_id) = Some x"
    by (auto simp: isfile_def)
  show ?thesis
    using True x
    by (simp add: Let_def fst_checkpoint_path rename_checkpoint_eq shutil_move_def
          rename_scratch_files isfile_def)
next
  case False
  then show ?thesis
    by (simp add: Let_def fst_checkpoint_path rename_checkpoint_eq rename_scratch_files)
qed

theorem rename_checkpoint_moves_witness:
  "isfile example_fs_full (fst (checkpoint_path example_self ''checkpoint1'' ''nb.ipynb'' example_fs_full))
   \<and> fst (checkpoint_path example_self ''checkpoint1'' ''nb.ipynb'' example_fs_full)
       \<noteq> fst (checkpoint_path example_self ''checkpoint1'' ''dir/nb2.ipynb'' example_fs_full)
   \<and> fst (rename_checkpoint example_self ''checkpoint1'' ''nb.ipynb'' ''dir/nb2.ipynb'' example_fs_full)
       = Inr ()
   \<and> files (snd (rename_checkpoint example_self ''checkpoint1'' ''nb.ipynb'' ''dir/nb2.ipynb''
                    example_fs_full)) ''/srv/dir/.ipynb_checkpoints/nb2-checkpoint1.ipynb''
       = Some \<lparr>st_mtime = 5000000, content = ''v1''\<rparr>
   \<and> \<not> isfile (snd (rename_checkpoint example_self ''checkpoint1'' ''nb.ipynb'' ''dir/nb2.ipynb''
                    example_fs_full)) ''/srv/.ipynb_checkpoints/nb-checkpoint1.ipynb''
   \<and> \<not> isfile example_fs_free (fst (checkpoint_path example_self ''checkpoint1'' ''nb.ipynb'' example_fs_free))
   \<and> files (snd (rename_checkpoint example_self ''checkpoint1'' ''nb.ipynb'' ''dir/nb2.ipynb''
                    example_fs_free)) = files example_fs_free"
  using rename_checkpoint_moves[of example_self "''checkpoint1''" "''nb.ipynb''" example_fs_full "''dir/nb2.ipynb''"]
    rename_checkpoint_moves[of example_self "''checkpoint1''" "''nb.ipynb''" example_fs_free "''dir/nb2.ipynb''"]
  by (simp add: Let_def fst_checkpoint_path slot_path_ex slot_path_ex2 isfile_def slot1_ex[unfolded slot_path_ex, simplified]
        example_fs_free_def example_fs_def)

section \<open>Content-based creation\<close>

text \<open>
  Claim C3 says that \<open>create_file_checkpoint\<close> and \<open>create_notebook_checkpoint\<close> choose
  their slot from the pool as \<open>create_checkpoint\<close> does. The code writes both to the fixed
  id \<open>checkpoint\<close>, which is never a member of the pool \<open>checkpoint0 .. checkpoint{N-1}\<close>;
  the file it writes is therefore not among those \<open>list_checkpoints\<close> looks at, and the
  listing after such a create is the listing before it.
\<close>

theorem content_based_create_outside_pool:
  "fst (create_file_checkpoint self content' format path mtime fs)
     = Inr \<lparr>info_id = ''checkpoint'', last_modified = utcfromtimestamp mtime\<rparr>
   \<and> fst (create_notebook_checkpoint self nb path mtime fs)
     = Inr \<lparr>info_id = ''checkpoint'', last_modified = utcfromtimestamp mtime\<rparr>
   \<and> ''checkpoint'' \<notin> set (get_checkpoint_ids self)
   \<and> isfile (snd (create_file_checkpoint self content' format path mtime fs))
        (fst (checkpoint_path self ''checkpoint'' path fs))
   \<and> isfile (snd (create_notebook_checkpoint self nb path mtime fs))
        (fst (checkpoint_path self ''checkpoint'' path fs))
   \<and> fst (list_checkpoints self path (snd (create_file_checkpoint self content' format path mtime fs)))
     = fst (list_checkpoints self path fs)
   \<and> fst (list_checkpoints self path (snd (create_notebook_checkpoint self nb path mtime fs)))
     = fst (list_checkpoints self path fs)"
proof -
  let ?fs1 = "snd (checkpoint_path self ''checkpoint'' path fs)"
  let ?p = "slot_path self path ''checkpoint''"
  have f: "files ?fs1 = files fs" by (rule checkpoint_path_files)
  have ne: "slot_path self path c \<noteq> ?p" if "c \<in> set (get_checkpoint_ids self)" for c
    using that checkpoint_not_in_pool[of self] slot_path_inject[of self path c "''checkpoint''"] by auto
  have l1: "fst (list_checkpoints self path (save_file ?p content' format mtime ?fs1))
              = fst (list_checkpoints self path fs)"
    by (rule list_checkpoints_cong) (simp add: save_file_def f ne)
  have l2: "fst (list_checkpoints self path (save_notebook ?p nb mtime ?fs1))
              = fst (list_checkpoints self path fs)"
    by (rule list_checkpoints_cong) (simp add: save_notebook_def f ne)
  show ?thesis
    by (simp add: create_file_checkpoint_eq create_notebook_checkpoint_eq checkpoint_not_in_pool
          fst_checkpoint_path l1 l2)
      (simp add: isfile_def save_file_def save_notebook_def)
qed

section \<open>Listing\<close>

text \<open>
  Claim C4. \<open>list_checkpoints\<close> returns, without raising and without touching the files,
  the info dicts \<open>{id, last_modified}\<close> of exactly those pool slots \<open>checkpoint{j}\<close>,
  \<open>j < N\<close>, whose checkpoint file exists, each once, in strictly descending order of
  the pair (modification time, position in the pool): a later modification time comes
  first, and among equal modification times the lower slot index comes first.
\<close>

theorem list_checkpoints_sorted:
  "\<exists>js. fst (list_checkpoints self path fs)
           = Inr (map (\<lambda>j. slot_info self path fs (''checkpoint'' @ format_nat j)) js)
        \<and> set js = {j. j < nat (max_checkpoints self)
                        \<and> isfile fs (fst (checkpoint_path self (''checkpoint'' @ format_nat j) path fs))}
        \<and> sorted_wrt (\<lambda>i j.
              last_modified (slot_info self path fs (''checkpoint'' @ format_nat i))
                > last_modified (slot_info self path fs (''checkpoint'' @ format_nat j))
              \<or> last_modified (slot_info self path fs (''checkpoint'' @ format_nat i))
                  = last_modified (slot_info self path fs (''checkpoint'' @ format_nat j))
                \<and> i < j) js
        \<and> files (snd (list_checkpoints self path fs)) = files fs"
proof -
  let ?slot = "\<lambda>j. ''checkpoint'' @ format_nat j"
  let ?ex = "\<lambda>j. isfile fs (slot_path self path (?slot j))"
  let ?k = "\<lambda>j. last_modified (slot_info self path fs (?slot j))"
  let ?is = "filter ?ex [0..<nat (max_checkpoints self)]"
  let ?js = "sorted_reverse ?k ?is"
  have pool: "filter (\<lambda>cid. isfile fs (slot_path self path cid)) (get_checkpoint_ids self)
                = map ?slot ?is"
    by (simp add: get_checkpoint_ids_def filter_map comp_def)
  have 1: "fst (list_checkpoints self path fs)
             = Inr (map (\<lambda>j. slot_info self path fs (?slot j)) ?js)"
    unfolding list_checkpoints_fst pool
    by (simp add: sorted_reverse_map comp_def)
  have 2: "set ?js = {j. j < nat (max_checkpoints self) \<and> ?ex j}"
    by (auto simp: set_sorted_reverse)
  have "sorted_wrt (<) ?is" by (rule sorted_wrt_filter) simp
  from sorted_reverse_lex[OF this, of ?k] have 3:
    "sorted_wrt (\<lambda>i j. ?k i > ?k j \<or> ?k i = ?k j \<and> i < j) ?js" .
  show ?thesis
    using 1 2 3 list_checkpoints_files[of self path fs]
    by (intro exI[of _ ?js]) (simp add: fst_checkpoint_path)
qed

theorem list_checkpoints_sorted_witness:
  "fst (list_checkpoints example_self ''nb.ipynb'' example_fs_full)
     = Inr [\<lparr>info_id = ''checkpoint1'', last_modified = 5000000\<rparr>,
            \<lparr>info_id = ''checkpoint0'', last_modified = 0\<rparr>]
   \<and> fst (list_checkpoints example_self ''nb.ipynb'' example_fs_tie)
     = Inr [\<lparr>info_id = ''checkpoint0'', last_modified = 5000000\<rparr>,
            \<lparr>info_id = ''checkpoint1'', last_modified = 5000000\<rparr>]
   \<and> fst (list_checkpoints example_self ''nb.ipynb'' example_fs_free) = Inr []
   \<and> files (snd (list_checkpoints example_self ''nb.ipynb'' example_fs_full)) = files example_fs_full"
proof -
  from list_checkpoints_sorted[of example_self "''nb.ipynb''" example_fs_free]
  obtain js where js: "fst (list_checkpoints example_self ''nb.ipynb'' example_fs_free)
           = Inr (map (\<lambda>j. slot_info example_self ''nb.ipynb'' example_fs_free (''checkpoint'' @ format_nat j)) js)"
    and s: "set js = {j. j < nat (max_checkpoints example_self)
                        \<and> isfile example_fs_free (fst (checkpoint_path example_self (''checkpoint'' @ format_nat j) ''nb.ipynb'' example_fs_free))}"
    by blast
  have "set js = {}"
    unfolding s by (simp add: fst_checkpoint_path slot_path_ex isfile_def example_fs_free_def example_fs_def)
  with js have free: "fst (list_checkpoints example_self ''nb.ipynb'' example_fs_free) = Inr []" by simp
  from list_checkpoints_sorted[of example_self "''nb.ipynb''" example_fs_full]
  have "files (snd (list_checkpoints example_self ''nb.ipynb'' example_fs_full)) = files example_fs_full"
    by blast
  with free list_full_ex list_tie_ex show ?thesis by simp
qed

section \<open>The pool bound\<close>

text \<open>
  Claim C2. Start from a state with no checkpoint file for the document path, under any
  slot label. After any finite sequence of \<open>create_checkpoint\<close> calls on that path, every
  slot label that has a checkpoint file belongs to the pool
  \<open>checkpoint0 .. checkpoint{N-1}\<close>, so their number is at most \<open>N\<close>; and a further call
  either raises and leaves the files as they are, or returns an id of the pool and
  changes the files only at the checkpoint file of that id.
\<close>

theorem pool_bound:
  assumes "\<forall>cid. \<not> isfile fs (fst (checkpoint_path self cid path fs))"
  shows
    "let fs' = create_checkpoints self contents_mgr path calls fs;
         existing = {cid. isfile fs' (fst (checkpoint_path self cid path fs'))}
     in existing \<subseteq> set (get_checkpoint_ids self)
      \<and> finite existing
      \<and> card existing \<le> nat (max_checkpoints self)
      \<and> (case fst (create_checkpoint self contents_mgr path cur_time mtime fs') of
            Inl e \<Rightarrow> files (snd (create_checkpoint self contents_mgr path cur_time mtime fs')) = files fs'
          | Inr info \<Rightarrow>
              info_id info \<in> set (get_checkpoint_ids self)
              \<and> (\<exists>f. files (snd (create_checkpoint self contents_mgr path cur_time mtime fs'))
                   = (files fs')(fst (checkpoint_path self (info_id info) path fs') \<mapsto> f)))"
proof -
  let ?fs' = "create_checkpoints self contents_mgr path calls fs"
  let ?existing = "{cid. isfile ?fs' (slot_path self path cid)}"
  have inv0: "cid \<in> set (get_checkpoint_ids self)" if "isfile fs (slot_path self path cid)" for cid
    using assms that by (simp add: fst_checkpoint_path)
  have sub: "?existing \<subseteq> set (get_checkpoint_ids self)"
  proof
    fix cid assume "cid \<in> ?existing"
    then have "isfile ?fs' (slot_path self path cid)" by simp
    with inv0 show "cid \<in> set (get_checkpoint_ids self)" by (rule create_checkpoints_invariant)
  qed
  then have fin: "finite ?existing" by (rule finite_subset) simp
  have "card ?existing \<le> card (set (get_checkpoint_ids self))"
    using sub by (intro card_mono) simp_all
  also have "\<dots> \<le> length (get_checkpoint_ids self)" by (rule card_length)
  finally have card: "card ?existing \<le> nat (max_checkpoints self)"
    by (simp add: length_get_checkpoint_ids)
  show ?thesis
    using sub fin card create_checkpoint_step[of self contents_mgr path cur_time mtime ?fs']
    by (simp add: Let_def fst_checkpoint_path split: sum.splits)
qed

theorem pool_bound_witness:
  "(\<forall>cid. \<not> isfile example_fs_free
             (fst (checkpoint_path example_self cid ''nb.ipynb'' example_fs_free)))
   \<and> fst (list_checkpoints example_self ''nb.ipynb''
         (create_checkpoints example_self example_mgr ''nb.ipynb'' example_calls example_fs_free))
     = Inr [\<lparr>info_id = ''checkpoint0'', last_modified = 1000000000\<rparr>,
            \<lparr>info_id = ''checkpoint1'', last_modified = 10000000\<rparr>]
   \<and> {cid. isfile (create_checkpoints example_self example_mgr ''nb.ipynb'' example_calls example_fs_free)
              (fst (checkpoint_path example_self cid ''nb.ipynb''
                     (create_checkpoints example_self example_mgr ''nb.ipynb'' example_calls
                        example_fs_free)))}
       \<subseteq> {''checkpoint0'', ''checkpoint1''}
   \<and> card {cid. isfile (create_checkpoints example_self example_mgr ''nb.ipynb'' example_calls example_fs_free)
              (fst (checkpoint_path example_self cid ''nb.ipynb''
                     (create_checkpoints example_self example_mgr ''nb.ipynb'' example_calls
                        example_fs_free)))}
       \<le> 2"
proof -
  have h: "\<forall>cid. \<not> isfile example_fs_free
             (fst (checkpoint_path example_self cid ''nb.ipynb'' example_fs_free))"
    using no_checkpoints_ex by blast
  have n: "nat (max_checkpoints example_self) = 2" by (simp add: example_self_def)
  show ?thesis
    using pool_bound[OF h, of example_mgr example_calls 0 0] h scenario_ex
    by (simp add: Let_def pool2 n)
qed

end
